theory Spec2Isabelle
  imports Complex_Main "HOL-Library.Log_Nat" "HOL-Library.Sublist"
begin

text \<open>
  A model of \<^verbatim>\<open>app.py\<close>, a Flask application: the class \<^verbatim>\<open>Calculator\<close> with its four
  operations and \<^verbatim>\<open>calculate\<close>, the handler \<^verbatim>\<open>api_calculate\<close> of
  \<^verbatim>\<open>POST /api/calculate\<close> and the handler \<^verbatim>\<open>health_check\<close> of \<^verbatim>\<open>GET /api/health\<close>.
  An exception is a value: a function that may raise returns \<open>Inl\<close> of the
  exception or \<open>Inr\<close> of its result.
\<close>

section \<open>Python values that the calculator handles\<close>

subsection \<open>Floating point numbers\<close>

text \<open>
  A Python \<^verbatim>\<open>float\<close> is an IEEE 754 binary64 number.  A finite nonzero number
  and positive zero are given by their exact rational value (\<open>Val 0\<close> is \<^verbatim>\<open>0.0\<close>),
  negative zero is \<open>NZero\<close>.  Every arithmetic operation computes the exact
  rational result and rounds it to the nearest binary64 number, ties to even
  (\<open>rnd\<close>): 53 bits of precision, least exponent \<open>-1074\<close>, overflow to infinity
  from \<open>2 ^ 1024\<close> on.
\<close>

datatype pyfloat = NaN | PInf | NInf | NZero | Val rat

text \<open>\<open>ilog2 a\<close> is \<open>\<lfloor>log\<^sub>2 a\<rfloor>\<close> for a positive rational \<open>a\<close>.\<close>

definition ilog2 :: "rat \<Rightarrow> int" where
  "ilog2 a = (case quotient_of a of (n, d) \<Rightarrow>
     (let k = bitlen n - bitlen d
      in if of_int d * (2 powi k) \<le> (of_int n :: rat) then k else k - 1))"

definition round_half_even :: "rat \<Rightarrow> int" where
  "round_half_even x = (let f = \<lfloor>x\<rfloor>; d = x - of_int f
     in if d < 1/2 then f else if 1/2 < d then f + 1 else if even f then f else f + 1)"

definition rnd :: "rat \<Rightarrow> pyfloat" where
  "rnd q = (if q = 0 then Val 0 else
     (let a = \<bar>q\<bar>;
          p = max (ilog2 a - 52) (- 1074);
          v = of_int (round_half_even (a / (2 powi p))) * (2 powi p)
      in if v = 0 then (if q < 0 then NZero else Val 0)
         else if 1024 \<le> ilog2 v then (if q < 0 then NInf else PInf)
         else Val (if q < 0 then - v else v)))"

definition is_zero :: "pyfloat \<Rightarrow> bool" where
  "is_zero x = (x = NZero \<or> x = Val 0)"

definition is_finite :: "pyfloat \<Rightarrow> bool" where
  "is_finite x = (case x of NZero \<Rightarrow> True | Val q \<Rightarrow> True | _ \<Rightarrow> False)"

definition value_of :: "pyfloat \<Rightarrow> rat" where
  "value_of x = (case x of Val q \<Rightarrow> q | _ \<Rightarrow> 0)"

definition sign_bit :: "pyfloat \<Rightarrow> bool" where
  "sign_bit x = (case x of NInf \<Rightarrow> True | NZero \<Rightarrow> True | Val q \<Rightarrow> q < 0 | _ \<Rightarrow> False)"

text \<open>\<^verbatim>\<open>x.is_integer()\<close>: a finite float without fractional part.\<close>

definition is_integer :: "pyfloat \<Rightarrow> bool" where
  "is_integer x = (is_finite x \<and> of_int \<lfloor>value_of x\<rfloor> = value_of x)"

definition zero_of :: "bool \<Rightarrow> pyfloat" where
  "zero_of neg = (if neg then NZero else Val 0)"

definition inf_of :: "bool \<Rightarrow> pyfloat" where
  "inf_of neg = (if neg then NInf else PInf)"

definition fneg :: "pyfloat \<Rightarrow> pyfloat" where
  "fneg x = (case x of NaN \<Rightarrow> NaN | PInf \<Rightarrow> NInf | NInf \<Rightarrow> PInf | NZero \<Rightarrow> Val 0
     | Val q \<Rightarrow> (if q = 0 then NZero else Val (- q)))"

text \<open>\<^verbatim>\<open>x + y\<close> on floats.  An exact zero sum is \<^verbatim>\<open>-0.0\<close> only when both operands are.\<close>

definition fadd :: "pyfloat \<Rightarrow> pyfloat \<Rightarrow> pyfloat" where
  "fadd x y =
     (if x = NaN \<or> y = NaN then NaN
      else if \<not> is_finite x then (if \<not> is_finite y \<and> x \<noteq> y then NaN else x)
      else if \<not> is_finite y then y
      else if value_of x + value_of y = 0 then zero_of (x = NZero \<and> y = NZero)
      else rnd (value_of x + value_of y))"

text \<open>\<^verbatim>\<open>x - y\<close> on floats.\<close>

definition fsub :: "pyfloat \<Rightarrow> pyfloat \<Rightarrow> pyfloat" where
  "fsub x y = fadd x (fneg y)"

text \<open>\<^verbatim>\<open>x * y\<close> on floats.\<close>

definition fmul :: "pyfloat \<Rightarrow> pyfloat \<Rightarrow> pyfloat" where
  "fmul x y =
     (if x = NaN \<or> y = NaN then NaN
      else if is_finite x \<and> is_finite y then
        (if value_of x * value_of y = 0 then zero_of (sign_bit x \<noteq> sign_bit y)
         else rnd (value_of x * value_of y))
      else if is_zero x \<or> is_zero y then NaN
      else inf_of (sign_bit x \<noteq> sign_bit y))"

text \<open>
  \<^verbatim>\<open>x / y\<close> on floats for a divisor that is not zero (Python raises
  \<^verbatim>\<open>ZeroDivisionError\<close> on a zero divisor: see \<open>py_truediv\<close> below).
\<close>

definition fdiv :: "pyfloat \<Rightarrow> pyfloat \<Rightarrow> pyfloat" where
  "fdiv x y =
     (if x = NaN \<or> y = NaN then NaN
      else if \<not> is_finite x then
        (if \<not> is_finite y then NaN else inf_of (sign_bit x \<noteq> sign_bit y))
      else if \<not> is_finite y then zero_of (sign_bit x \<noteq> sign_bit y)
      else if value_of x / value_of y = 0 then zero_of (sign_bit x \<noteq> sign_bit y)
      else rnd (value_of x / value_of y))"

text \<open>\<^verbatim>\<open>x == 0\<close> and \<^verbatim>\<open>x == i\<close> for a float \<open>x\<close> and an integer \<open>i\<close>: an exact comparison.\<close>

definition float_eq_int :: "pyfloat \<Rightarrow> int \<Rightarrow> bool" where
  "float_eq_int x i = (case x of Val q \<Rightarrow> q = of_int i | NZero \<Rightarrow> i = 0 | _ \<Rightarrow> False)"

text \<open>
  \<^verbatim>\<open>round(x, ndigits)\<close> for \<open>ndigits \<ge> 0\<close>: the exact value of \<open>x\<close> is rounded to
  \<open>ndigits\<close> decimal places, ties to even, and the decimal number obtained is
  rounded to the nearest float.  Zeros, infinities and NaN round to themselves,
  and so does every float when \<open>ndigits\<close> exceeds 323.
\<close>

definition py_round :: "pyfloat \<Rightarrow> nat \<Rightarrow> pyfloat" where
  "py_round x ndigits = (case x of
       Val q \<Rightarrow>
         (if q = 0 \<or> 323 < ndigits then x
          else (let r = of_int (round_half_even (q * 10 ^ ndigits)) / 10 ^ ndigits
                in if r = 0 then zero_of (q < 0) else rnd r))
     | _ \<Rightarrow> x)"

subsection \<open>Strings\<close>

text \<open>
  A Python \<^verbatim>\<open>str\<close> is a sequence of Unicode code points.  \<open>asc\<close> turns an ASCII
  literal of the source into one.
\<close>

type_synonym pystr = "nat list"

definition asc :: "string \<Rightarrow> pystr" where
  "asc s = map of_char s"

text \<open>\<^verbatim>\<open>sub in s\<close> for two strings: \<open>sub\<close> occurs in \<open>s\<close> as a contiguous block.\<close>

fun str_contains :: "pystr \<Rightarrow> pystr \<Rightarrow> bool" where
  "str_contains [] sub = (sub = [])"
| "str_contains (c # cs) sub = (prefix sub (c # cs) \<or> str_contains cs sub)"

subsection \<open>Parsing a string as a float\<close>

text \<open>
  \<^verbatim>\<open>float(s)\<close> for a string \<open>s\<close> first replaces every code point from 127 on: a
  Unicode space becomes a blank, a Unicode decimal digit its ASCII digit, anything
  else a question mark.  The table of decimal digits is that of Unicode 14.0.0
  (CPython 3.11): each entry starts a block of the ten digits 0 to 9.
\<close>

definition unicode_spaces :: "nat list" where
  "unicode_spaces = [0x85, 0xA0, 0x1680, 0x2000, 0x2001, 0x2002, 0x2003, 0x2004, 0x2005,
     0x2006, 0x2007, 0x2008, 0x2009, 0x200A, 0x2028, 0x2029, 0x202F, 0x205F, 0x3000]"

definition decimal_blocks :: "nat list" where
  "decimal_blocks = [0x660, 0x6F0, 0x7C0, 0x966, 0x9E6, 0xA66, 0xAE6, 0xB66, 0xBE6, 0xC66,
     0xCE6, 0xD66, 0xDE6, 0xE50, 0xED0, 0xF20, 0x1040, 0x1090, 0x17E0, 0x1810, 0x1946,
     0x19D0, 0x1A80, 0x1A90, 0x1B50, 0x1BB0, 0x1C40, 0x1C50, 0xA620, 0xA8D0, 0xA900,
     0xA9D0, 0xA9F0, 0xAA50, 0xABF0, 0xFF10, 0x104A0, 0x10D30, 0x11066, 0x110F0, 0x11136,
     0x111D0, 0x112F0, 0x11450, 0x114D0, 0x11650, 0x116C0, 0x11730, 0x118E0, 0x11950,
     0x11C50, 0x11D50, 0x11DA0, 0x16A60, 0x16AC0, 0x16B50, 0x1D7CE, 0x1D7D8, 0x1D7E2,
     0x1D7EC, 0x1D7F6, 0x1E140, 0x1E2F0, 0x1E950, 0x1FBF0]"

definition to_ascii :: "nat \<Rightarrow> nat" where
  "to_ascii c =
     (if c < 127 then c
      else if c \<in> set unicode_spaces then 32
      else (case find (\<lambda>b. b \<le> c \<and> c < b + 10) decimal_blocks of
              Some b \<Rightarrow> 48 + (c - b)
            | None \<Rightarrow> 63))"

definition is_digit :: "nat \<Rightarrow> bool" where
  "is_digit c = (48 \<le> c \<and> c \<le> 57)"

definition is_space :: "nat \<Rightarrow> bool" where
  "is_space c = (c = 32 \<or> (9 \<le> c \<and> c \<le> 13))"

definition to_lower :: "nat \<Rightarrow> nat" where
  "to_lower c = (if 65 \<le> c \<and> c \<le> 90 then c + 32 else c)"

text \<open>
  Underscores are dropped; one is allowed only between two digits.  The first
  argument is the character before.
\<close>

fun drop_underscores :: "nat \<Rightarrow> pystr \<Rightarrow> pystr option" where
  "drop_underscores prev [] = (if prev = 95 then None else Some [])"
| "drop_underscores prev (c # cs) =
     (if c = 95 then (if is_digit prev then drop_underscores c cs else None)
      else if prev = 95 \<and> \<not> is_digit c then None
      else map_option ((#) c) (drop_underscores c cs))"

definition strip :: "pystr \<Rightarrow> pystr" where
  "strip s = rev (dropWhile is_space (rev (dropWhile is_space s)))"

definition digits_value :: "pystr \<Rightarrow> nat" where
  "digits_value ds = foldl (\<lambda>n c. 10 * n + (c - 48)) 0 ds"

text \<open>An optional sign: whether it is a minus, and the rest.\<close>

definition split_sign :: "pystr \<Rightarrow> bool \<times> pystr" where
  "split_sign s = (case s of [] \<Rightarrow> (False, [])
     | c # cs \<Rightarrow> (if c = 45 then (True, cs) else if c = 43 then (False, cs) else (False, s)))"

text \<open>
  The exponent part, which is empty or \<^verbatim>\<open>e\<close>, an optional sign and at least one
  digit, with nothing behind.
\<close>

definition parse_exponent :: "pystr \<Rightarrow> int option" where
  "parse_exponent s = (case s of [] \<Rightarrow> Some 0
     | c # cs \<Rightarrow>
        (if to_lower c = 101 then
           (case split_sign cs of (neg, ds) \<Rightarrow>
              (if ds \<noteq> [] \<and> list_all is_digit ds
               then Some (if neg then - int (digits_value ds) else int (digits_value ds))
               else None))
         else None))"

text \<open>
  An unsigned decimal number: digits, an optional point, digits (at least one digit
  in all), and the exponent part.  The result is its exact value.
\<close>

definition parse_decimal :: "pystr \<Rightarrow> rat option" where
  "parse_decimal s =
     (let ip = takeWhile is_digit s; r1 = dropWhile is_digit s;
          pt = (r1 \<noteq> [] \<and> hd r1 = 46);
          fp = (if pt then takeWhile is_digit (tl r1) else []);
          r2 = (if pt then dropWhile is_digit (tl r1) else r1)
      in if ip = [] \<and> fp = [] then None
         else (case parse_exponent r2 of None \<Rightarrow> None
               | Some e \<Rightarrow>
                  Some (of_nat (digits_value (ip @ fp)) * (10 powi (e - int (length fp))))))"

definition float_of_str :: "pystr \<Rightarrow> pyfloat option" where
  "float_of_str s =
     (case drop_underscores 0 (map to_ascii s) of None \<Rightarrow> None
      | Some t \<Rightarrow>
         (case split_sign (strip t) of (neg, u) \<Rightarrow>
            (let l = map to_lower u
             in if l = asc ''inf'' \<or> l = asc ''infinity'' then Some (inf_of neg)
                else if l = asc ''nan'' then Some NaN
                else (case parse_decimal u of None \<Rightarrow> None
                      | Some q \<Rightarrow>
                         Some (if q = 0 then zero_of neg else rnd (if neg then - q else q))))))"

subsection \<open>JSON values and exceptions\<close>

text \<open>
  What \<^verbatim>\<open>request.get_json()\<close> returns: \<^verbatim>\<open>None\<close>, a \<^verbatim>\<open>bool\<close>, an \<^verbatim>\<open>int\<close> (unbounded), a
  \<^verbatim>\<open>float\<close>, a \<^verbatim>\<open>str\<close>, a \<^verbatim>\<open>list\<close> or a \<^verbatim>\<open>dict\<close> with string keys, given by its items
  (looked up with \<open>map_of\<close>).
\<close>

datatype json =
    JNull
  | JBool bool
  | JInt int
  | JFloat pyfloat
  | JStr pystr
  | JList "json list"
  | JObj "(pystr \<times> json) list"

text \<open>
  The text of an exception and of an error field: a literal of the source
  (\<open>Text\<close>), or a literal followed by \<^verbatim>\<open>str(v)\<close> or by \<^verbatim>\<open>repr(v)\<close> of a value.
\<close>

datatype message = Text string | Text_str string json | Text_repr string json

datatype exn =
    ValueError message
  | TypeError
  | OverflowError
  | ZeroDivisionError
  | KeyError
  | HTTPException

text \<open>\<^verbatim>\<open>float(v)\<close>.\<close>

definition float_py :: "json \<Rightarrow> exn + pyfloat" where
  "float_py v = (case v of
       JNull \<Rightarrow> Inl TypeError
     | JBool b \<Rightarrow> Inr (Val (if b then 1 else 0))
     | JInt n \<Rightarrow> (case rnd (of_int n) of
                     PInf \<Rightarrow> Inl OverflowError
                   | NInf \<Rightarrow> Inl OverflowError
                   | x \<Rightarrow> Inr x)
     | JFloat x \<Rightarrow> Inr x
     | JStr s \<Rightarrow> (case float_of_str s of
                     None \<Rightarrow> Inl (ValueError (Text_repr ''could not convert string to float: '' v))
                   | Some x \<Rightarrow> Inr x)
     | JList xs \<Rightarrow> Inl TypeError
     | JObj kvs \<Rightarrow> Inl TypeError)"

text \<open>\<^verbatim>\<open>int(x)\<close> for a float: truncation towards zero.\<close>

definition int_py :: "pyfloat \<Rightarrow> exn + int" where
  "int_py x = (case x of
       NaN \<Rightarrow> Inl (ValueError (Text ''cannot convert float NaN to integer''))
     | PInf \<Rightarrow> Inl OverflowError
     | NInf \<Rightarrow> Inl OverflowError
     | NZero \<Rightarrow> Inr 0
     | Val q \<Rightarrow> Inr (if 0 \<le> q then \<lfloor>q\<rfloor> else \<lceil>q\<rceil>))"

text \<open>\<^verbatim>\<open>x / y\<close> for two floats.\<close>

definition py_truediv :: "pyfloat \<Rightarrow> pyfloat \<Rightarrow> exn + pyfloat" where
  "py_truediv x y = (if is_zero y then Inl ZeroDivisionError else Inr (fdiv x y))"

text \<open>\<^verbatim>\<open>not v\<close>: the values that count as false.\<close>

definition falsy :: "json \<Rightarrow> bool" where
  "falsy v = (case v of
       JNull \<Rightarrow> True
     | JBool b \<Rightarrow> \<not> b
     | JInt n \<Rightarrow> n = 0
     | JFloat x \<Rightarrow> is_zero x
     | JStr s \<Rightarrow> s = []
     | JList xs \<Rightarrow> xs = []
     | JObj kvs \<Rightarrow> kvs = [])"

text \<open>\<^verbatim>\<open>key in v\<close> for a string \<open>key\<close>.\<close>

definition py_in :: "pystr \<Rightarrow> json \<Rightarrow> exn + bool" where
  "py_in key v = (case v of
       JObj kvs \<Rightarrow> Inr (map_of kvs key \<noteq> None)
     | JList xs \<Rightarrow> Inr (List.member xs (JStr key))
     | JStr s \<Rightarrow> Inr (str_contains s key)
     | _ \<Rightarrow> Inl TypeError)"

text \<open>\<^verbatim>\<open>v[key]\<close> for a string \<open>key\<close>.\<close>

definition getitem :: "json \<Rightarrow> pystr \<Rightarrow> exn + json" where
  "getitem v key = (case v of
       JObj kvs \<Rightarrow> (case map_of kvs key of None \<Rightarrow> Inl KeyError | Some x \<Rightarrow> Inr x)
     | _ \<Rightarrow> Inl TypeError)"

section \<open>The calculator\<close>

text \<open>The four static methods of \<^verbatim>\<open>Calculator\<close>; \<^verbatim>\<open>float(a)\<close> is evaluated before \<^verbatim>\<open>float(b)\<close>.\<close>

definition add :: "json \<Rightarrow> json \<Rightarrow> exn + pyfloat" where
  "add a b = (case float_py a of Inl e \<Rightarrow> Inl e
     | Inr x \<Rightarrow> (case float_py b of Inl e \<Rightarrow> Inl e | Inr y \<Rightarrow> Inr (fadd x y)))"

definition subtract :: "json \<Rightarrow> json \<Rightarrow> exn + pyfloat" where
  "subtract a b = (case float_py a of Inl e \<Rightarrow> Inl e
     | Inr x \<Rightarrow> (case float_py b of Inl e \<Rightarrow> Inl e | Inr y \<Rightarrow> Inr (fsub x y)))"

definition multiply :: "json \<Rightarrow> json \<Rightarrow> exn + pyfloat" where
  "multiply a b = (case float_py a of Inl e \<Rightarrow> Inl e
     | Inr x \<Rightarrow> (case float_py b of Inl e \<Rightarrow> Inl e | Inr y \<Rightarrow> Inr (fmul x y)))"

text \<open>\<^verbatim>\<open>divide\<close> tests \<^verbatim>\<open>float(b) == 0\<close> first and converts \<open>a\<close> only afterwards.\<close>

definition divide :: "json \<Rightarrow> json \<Rightarrow> exn + pyfloat" where
  "divide a b = (case float_py b of Inl e \<Rightarrow> Inl e
     | Inr z \<Rightarrow>
        (if float_eq_int z 0 then Inl (ValueError (Text ''Division by zero is not allowed''))
         else (case float_py a of Inl e \<Rightarrow> Inl e
               | Inr x \<Rightarrow> (case float_py b of Inl e \<Rightarrow> Inl e | Inr y \<Rightarrow> py_truediv x y))))"

text \<open>
  The dictionary \<^verbatim>\<open>operations\<close>.  The fourth key of the source file is the two code
  points U+0E23 U+0097 and the sixth is U+0E23 U+0E17.
\<close>

definition operations :: "(pystr \<times> (json \<Rightarrow> json \<Rightarrow> exn + pyfloat)) list" where
  "operations =
     [(asc ''+'', add),
      (asc ''-'', subtract),
      (asc ''*'', multiply),
      ([0xE23, 0x97], multiply),
      (asc ''/'', divide),
      ([0xE23, 0xE17], divide)]"

text \<open>
  Looking \<open>operator\<close> up in the dictionary hashes it: a list or a dict is not
  hashable (\<^verbatim>\<open>TypeError\<close>); a number, a boolean or \<^verbatim>\<open>None\<close> equals no string key.
\<close>

definition lookup_operation ::
  "json \<Rightarrow> exn + (json \<Rightarrow> json \<Rightarrow> exn + pyfloat) option" where
  "lookup_operation operator = (case operator of
       JStr s \<Rightarrow> Inr (map_of operations s)
     | JList xs \<Rightarrow> Inl TypeError
     | JObj kvs \<Rightarrow> Inl TypeError
     | _ \<Rightarrow> Inr None)"

definition calculate :: "json \<Rightarrow> json \<Rightarrow> json \<Rightarrow> exn + pyfloat" where
  "calculate num1 operator num2 = (case lookup_operation operator of
       Inl e \<Rightarrow> Inl e
     | Inr None \<Rightarrow> Inl (ValueError (Text_str ''Invalid operator: '' operator))
     | Inr (Some f) \<Rightarrow> f num1 num2)"

section \<open>The request handlers\<close>

text \<open>
  A response is a status code and the dictionary given to \<^verbatim>\<open>jsonify\<close>.  The value
  of a field is a boolean, a number or a text.
\<close>

datatype jvalue = VBool bool | VInt int | VFloat pyfloat | VStr message

record response =
  status :: nat
  body :: "(string \<times> jvalue) list"

text \<open>
  What a handler does besides answering: the calls of \<^verbatim>\<open>Calculator.calculate\<close>
  with their arguments, and the calls of the logger.
\<close>

datatype event = Calculate json json json | Log_info | Log_error

definition required_fields :: "string list" where
  "required_fields = [''num1'', ''operator'', ''num2'']"

text \<open>
  The loop over \<^verbatim>\<open>required_fields\<close>: the first field that is not in \<open>data\<close>, if
  there is one.
\<close>

fun first_missing :: "json \<Rightarrow> string list \<Rightarrow> exn + string option" where
  "first_missing data [] = Inr None"
| "first_missing data (field # rest) = (case py_in (asc field) data of
       Inl e \<Rightarrow> Inl e
     | Inr True \<Rightarrow> first_missing data rest
     | Inr False \<Rightarrow> Inr (Some field))"

text \<open>The two conversions under \<^verbatim>\<open># Validate numbers\<close>, whose results are dropped.\<close>

definition validate_numbers :: "json \<Rightarrow> json \<Rightarrow> exn + unit" where
  "validate_numbers num1 num2 = (case float_py num1 of Inl e \<Rightarrow> Inl e
     | Inr x \<Rightarrow> (case float_py num2 of Inl e \<Rightarrow> Inl e | Inr y \<Rightarrow> Inr ()))"

text \<open>
  The result is made an \<^verbatim>\<open>int\<close> when it equals \<^verbatim>\<open>int(result)\<close>, and is rounded to
  ten decimal places otherwise.
\<close>

definition format_result :: "pyfloat \<Rightarrow> exn + jvalue" where
  "format_result result = (case int_py result of Inl e \<Rightarrow> Inl e
     | Inr i \<Rightarrow> (if float_eq_int result i then Inr (VInt i)
                 else Inr (VFloat (py_round result 10))))"

definition no_data :: response where
  "no_data = \<lparr>status = 400,
     body = [(''success'', VBool False), (''error'', VStr (Text ''No data provided''))]\<rparr>"

definition missing_field :: "string \<Rightarrow> response" where
  "missing_field field = \<lparr>status = 400,
     body = [(''success'', VBool False),
             (''error'', VStr (Text (''Missing required field: '' @ field)))]\<rparr>"

definition invalid_number :: response where
  "invalid_number = \<lparr>status = 400,
     body = [(''success'', VBool False), (''error'', VStr (Text ''Invalid number format''))]\<rparr>"

definition success :: "jvalue \<Rightarrow> response" where
  "success result = \<lparr>status = 200,
     body = [(''success'', VBool True), (''result'', result)]\<rparr>"

definition calculation_error :: "message \<Rightarrow> response" where
  "calculation_error m = \<lparr>status = 400,
     body = [(''success'', VBool False), (''error'', VStr m)]\<rparr>"

definition unexpected_error :: response where
  "unexpected_error = \<lparr>status = 500,
     body = [(''success'', VBool False),
             (''error'', VStr (Text ''An unexpected error occurred''))]\<rparr>"

text \<open>
  The body of the \<^verbatim>\<open>try\<close> statement of \<^verbatim>\<open>api_calculate\<close>, from what
  \<^verbatim>\<open>request.get_json()\<close> returned: the events so far, and the response returned or the
  exception raised.
\<close>

definition calculate_and_format ::
  "json \<Rightarrow> json \<Rightarrow> json \<Rightarrow> event list \<times> (exn + response)" where
  "calculate_and_format num1 operator num2 =
     (case calculate num1 operator num2 of
        Inl e \<Rightarrow> ([Calculate num1 operator num2], Inl e)
      | Inr result \<Rightarrow>
         (case format_result result of
            Inl e \<Rightarrow> ([Calculate num1 operator num2], Inl e)
          | Inr r \<Rightarrow> ([Calculate num1 operator num2, Log_info], Inr (success r))))"

definition validate_and_calculate ::
  "json \<Rightarrow> json \<Rightarrow> json \<Rightarrow> event list \<times> (exn + response)" where
  "validate_and_calculate num1 operator num2 =
     (case validate_numbers num1 num2 of
        Inl e \<Rightarrow> (case e of
            ValueError m \<Rightarrow> ([], Inr invalid_number)
          | TypeError \<Rightarrow> ([], Inr invalid_number)
          | _ \<Rightarrow> ([], Inl e))
      | Inr u \<Rightarrow> calculate_and_format num1 operator num2)"

definition try_body :: "json \<Rightarrow> event list \<times> (exn + response)" where
  "try_body data =
     (if falsy data then ([], Inr no_data)
      else (case first_missing data required_fields of
          Inl e \<Rightarrow> ([], Inl e)
        | Inr (Some field) \<Rightarrow> ([], Inr (missing_field field))
        | Inr None \<Rightarrow>
           (case getitem data (asc ''num1'') of Inl e \<Rightarrow> ([], Inl e)
            | Inr num1 \<Rightarrow>
           (case getitem data (asc ''operator'') of Inl e \<Rightarrow> ([], Inl e)
            | Inr operator \<Rightarrow>
           (case getitem data (asc ''num2'') of Inl e \<Rightarrow> ([], Inl e)
            | Inr num2 \<Rightarrow> validate_and_calculate num1 operator num2)))))"

text \<open>The two \<^verbatim>\<open>except\<close> clauses: \<^verbatim>\<open>ValueError\<close> first, then any other exception.\<close>

definition handle_exception :: "exn \<Rightarrow> response" where
  "handle_exception e = (case e of
       ValueError m \<Rightarrow> calculation_error m
     | _ \<Rightarrow> unexpected_error)"

text \<open>
  \<^verbatim>\<open>api_calculate\<close>, given what \<^verbatim>\<open>request.get_json()\<close> does: it raises an exception or
  returns a value.
\<close>

definition api_calculate :: "exn + json \<Rightarrow> event list \<times> response" where
  "api_calculate got = (case got of
       Inl e \<Rightarrow> ([Log_error], handle_exception e)
     | Inr data \<Rightarrow> (case try_body data of
          (evs, Inr r) \<Rightarrow> (evs, r)
        | (evs, Inl e) \<Rightarrow> (evs @ [Log_error], handle_exception e)))"

definition health_check :: response where
  "health_check = \<lparr>status = 200,
     body = [(''status'', VStr (Text ''healthy'')),
             (''message'', VStr (Text ''Calculator API is running''))]\<rparr>"

section \<open>Notions of the specification\<close>

text \<open>
  The failure conditions that \<^verbatim>\<open>calculate\<close> raises, both a \<^verbatim>\<open>ValueError\<close>:
  DivisionByZero and InvalidOperator.
\<close>

definition division_by_zero :: exn where
  "division_by_zero = ValueError (Text ''Division by zero is not allowed'')"

definition invalid_operator :: "json \<Rightarrow> exn" where
  "invalid_operator operator = ValueError (Text_str ''Invalid operator: '' operator)"

text \<open>A value that \<^verbatim>\<open>hash\<close> accepts, so that it can be looked up in a dictionary.\<close>

definition hashable :: "json \<Rightarrow> bool" where
  "hashable v = (case v of JList xs \<Rightarrow> False | JObj kvs \<Rightarrow> False | _ \<Rightarrow> True)"

text \<open>
  An operand that cannot be parsed as a number: \<^verbatim>\<open>float\<close> raises one of the two
  exceptions that the validation catches.
\<close>

definition not_a_number :: "json \<Rightarrow> bool" where
  "not_a_number v = (case float_py v of
       Inl (ValueError m) \<Rightarrow> True
     | Inl TypeError \<Rightarrow> True
     | _ \<Rightarrow> False)"

text \<open>The JSON object with exactly the three fields.\<close>

definition request :: "json \<Rightarrow> json \<Rightarrow> json \<Rightarrow> json" where
  "request num1 operator num2 =
     JObj [(asc ''num1'', num1), (asc ''operator'', operator), (asc ''num2'', num2)]"

text \<open>
  \<open>data\<close> is a JSON object in which the three fields are present, with these
  values (it may have more fields).
\<close>

definition has_fields :: "json \<Rightarrow> json \<Rightarrow> json \<Rightarrow> json \<Rightarrow> bool" where
  "has_fields data num1 operator num2 =
     (getitem data (asc ''num1'') = Inr num1 \<and>
      getitem data (asc ''operator'') = Inr operator \<and>
      getitem data (asc ''num2'') = Inr num2)"

section \<open>Properties\<close>

subsection \<open>Rounding\<close>

text \<open>
  \<open>ilog2\<close> is the binary exponent of a positive rational, and \<open>round_half_even\<close>
  returns a nearest integer.
\<close>

lemma bitlen_powi_bounds:
  assumes "0 < n"
  shows "2 powi (bitlen n - 1) \<le> (of_int n :: rat)" and "(of_int n :: rat) < 2 powi (bitlen n)"
proof -
  from bitlen_bounds [OF assms]
  have lo: "2 ^ nat (bitlen n - 1) \<le> n" and hi: "n < 2 ^ nat (bitlen n)" by simp_all
  from assms have b: "1 \<le> bitlen n" by (auto simp: bitlen_alt_def)
  have "(2::rat) powi (bitlen n - 1) = of_int (2 ^ nat (bitlen n - 1))"
    using b by (simp add: power_int_def)
  also have "\<dots> \<le> of_int n"
    using lo by (simp only: of_int_le_iff)
  finally show "2 powi (bitlen n - 1) \<le> (of_int n :: rat)" .
  have "(of_int n :: rat) < of_int (2 ^ nat (bitlen n))"
    using hi by (simp only: of_int_less_iff)
  also have "\<dots> = 2 powi (bitlen n)"
    using b by (simp add: power_int_def)
  finally show "(of_int n :: rat) < 2 powi (bitlen n)" .
qed

lemma ilog2_bounds:
  assumes "0 < a"
  shows "2 powi (ilog2 a) \<le> a \<and> a < 2 powi (ilog2 a + 1)"
proof -
  obtain n d where qd: "quotient_of a = (n, d)" by force
  then have d: "0 < d" and a: "a = of_int n / of_int d"
    using quotient_of_denom_pos quotient_of_div by blast+
  from assms a d have n: "0 < n"
    by (simp add: zero_less_divide_iff)
  define k where "k = bitlen n - bitlen d"
  have dq: "0 < (of_int d :: rat)" using d by simp
  have two: "(2::rat) powi (i + j) = 2 powi i * 2 powi j" for i j
    by (rule power_int_add) simp
  have lower: "2 powi (k - 1) \<le> a"
  proof -
    have "(2::rat) powi (k - 1) * of_int d \<le> 2 powi (k - 1) * 2 powi (bitlen d)"
      using bitlen_powi_bounds(2) [OF d] by (intro mult_left_mono) simp_all
    also have "\<dots> = 2 powi (bitlen n - 1)"
      unfolding two [symmetric] k_def by simp
    also have "\<dots> \<le> of_int n"
      by (rule bitlen_powi_bounds(1) [OF n])
    finally show ?thesis
      using dq by (simp add: a pos_le_divide_eq)
  qed
  have upper: "a < 2 powi (k + 1)"
  proof -
    have "(of_int n :: rat) < 2 powi (bitlen n)"
      by (rule bitlen_powi_bounds(2) [OF n])
    also have "\<dots> = 2 powi (k + 1) * 2 powi (bitlen d - 1)"
      unfolding two [symmetric] k_def by simp
    also have "\<dots> \<le> 2 powi (k + 1) * of_int d"
      using bitlen_powi_bounds(1) [OF d] by (intro mult_left_mono) simp_all
    finally show ?thesis
      using dq by (simp add: a pos_divide_less_eq)
  qed
  show ?thesis
  proof (cases "of_int d * (2 powi k) \<le> (of_int n :: rat)")
    case True
    then have "ilog2 a = k" by (simp add: ilog2_def qd k_def)
    moreover from True have "2 powi k \<le> a"
      using dq by (simp add: a pos_le_divide_eq mult.commute)
    ultimately show ?thesis using upper by simp
  next
    case False
    then have "ilog2 a = k - 1" by (simp add: ilog2_def qd k_def)
    moreover from False have "a < 2 powi k"
      using dq by (simp add: a pos_divide_less_eq mult.commute not_le)
    ultimately show ?thesis using lower by simp
  qed
qed

lemma round_half_even_nearest: "\<bar>of_int (round_half_even x) - x\<bar> \<le> 1 / 2"
proof -
  define f where "f = \<lfloor>x\<rfloor>"
  have lo: "of_int f \<le> x" and hi: "x < of_int f + 1"
    unfolding f_def by linarith+
  consider "x - of_int f < 1 / 2" | "1 / 2 < x - of_int f" | "x - of_int f = 1 / 2"
    by linarith
  then show ?thesis
  proof cases
    case 1
    then have "round_half_even x = f"
      by (simp add: round_half_even_def f_def)
    with 1 lo show ?thesis by simp
  next
    case 2
    then have "round_half_even x = f + 1"
      by (simp add: round_half_even_def f_def)
    with 2 hi show ?thesis by simp
  next
    case 3
    then have "round_half_even x = f \<or> round_half_even x = f + 1"
      by (simp add: round_half_even_def f_def Let_def)
    with 3 show ?thesis by auto
  qed
qed

text \<open>A power of two from \<open>2 ^ 1024\<close> on overflows.\<close>

lemma ilog2_power2: "ilog2 (2 ^ n) = int n"
proof -
  have "quotient_of ((2::rat) ^ n) = (2 ^ n, 1)"
    using quotient_of_int [of "2 ^ n"] by (simp add: Rat.of_int_def)
  moreover have "bitlen (2 ^ n) = int n + 1"
    using bitlen_pow2 [of 1 n] by (simp add: bitlen_alt_def)
  moreover have "bitlen 1 = 1"
    by (simp add: bitlen_alt_def)
  ultimately show ?thesis
    by (simp add: ilog2_def)
qed

lemma round_half_even_of_int: "round_half_even (of_int i) = i"
  by (simp add: round_half_even_def)

lemma rnd_power2_overflow:
  assumes "1024 \<le> n"
  shows "rnd (2 ^ n) = PInf"
proof -
  have n52: "(2::rat) ^ n = 2 ^ 52 * 2 powi (int n - 52)"
  proof -
    have "(2::rat) ^ n = 2 powi (52 + (int n - 52))" by simp
    also have "\<dots> = 2 powi 52 * 2 powi (int n - 52)"
      by (rule power_int_add) simp
    finally show ?thesis by simp
  qed
  have p: "max (int n - 52) (- 1074) = int n - 52"
    using assms by simp
  have q: "(2::rat) ^ n / 2 powi (int n - 52) = of_int (2 ^ 52)"
    by (subst n52) simp
  have v: "of_int (round_half_even ((2::rat) ^ n / 2 powi (int n - 52))) * 2 powi (int n - 52)
      = (2::rat) ^ n"
    unfolding q round_half_even_of_int by (subst n52) simp
  have a: "\<bar>(2::rat) ^ n\<bar> = 2 ^ n" by simp
  show ?thesis
    unfolding rnd_def Let_def a p v ilog2_power2 using assms by simp
qed

lemma float_py_overflow: "float_py (JInt (2 ^ 1024)) = Inl OverflowError"
  using rnd_power2_overflow [of 1024] by (simp add: float_py_def)

text \<open>
  An integer of absolute value up to \<open>2 ^ 53\<close> is a float; the float that \<open>rnd\<close>
  returns is within half a unit in the last place of the exact value; and
  \<^verbatim>\<open>round(x, n)\<close> is the float of a decimal number with \<open>n\<close> places that is nearest
  to \<open>x\<close>.
\<close>

lemma rnd_of_int_exact:
  assumes "\<bar>n\<bar> \<le> 2 ^ 53"
  shows "rnd (of_int n) = Val (of_int n)"
proof (cases "n = 0")
  case True
  then show ?thesis by (simp add: rnd_def)
next
  case False
  define a :: rat where "a = of_int \<bar>n\<bar>"
  have abs_a: "\<bar>of_int n\<bar> = a" by (simp add: a_def)
  define e where "e = ilog2 a"
  define p where "p = max (e - 52) (- 1074)"
  from False have "1 \<le> \<bar>n\<bar>" by simp
  then have a1: "1 \<le> a"
    unfolding a_def by (simp only: of_int_1_le_iff)
  from assms have a53: "a \<le> 2 ^ 53"
    unfolding a_def by simp
  from a1 have apos: "0 < a" by simp
  from ilog2_bounds [OF apos] have lo: "2 powi e \<le> a" and hi: "a < 2 powi (e + 1)"
    by (simp_all add: e_def)
  have e0: "0 \<le> e"
  proof (rule ccontr)
    assume "\<not> 0 \<le> e"
    then have "e + 1 \<le> 0" by simp
    then have "(2::rat) powi (e + 1) \<le> 2 powi 0"
      by (intro power_int_increasing) simp_all
    with hi a1 show False by simp
  qed
  have e53: "e \<le> 53"
  proof (rule ccontr)
    assume "\<not> e \<le> 53"
    then have "54 \<le> e" by simp
    then have "(2::rat) powi 54 \<le> 2 powi e"
      by (intro power_int_increasing) simp_all
    with lo a53 show False by simp
  qed
  have p: "p = e - 52" using e0 by (simp add: p_def)
  obtain i :: int where i: "a / 2 powi p = of_int i"
  proof (cases "e \<le> 52")
    case True
    then have "a / 2 powi p = a * 2 ^ nat (52 - e)"
      by (simp add: p power_int_def field_simps)
    also have "\<dots> = of_int (\<bar>n\<bar> * 2 ^ nat (52 - e))"
      by (simp add: a_def)
    finally show ?thesis using that by blast
  next
    case False
    with e53 have e: "e = 53" by simp
    with lo a53 have "a = 2 ^ 53" by simp
    then have "a / 2 powi p = of_int (2 ^ 52)"
      by (simp add: p e)
    then show ?thesis using that by blast
  qed
  have "round_half_even (a / 2 powi p) = i"
    by (simp only: i round_half_even_of_int)
  then have "of_int (round_half_even (a / 2 powi p)) * 2 powi p = (a / 2 powi p) * 2 powi p"
    by (simp only: i)
  then have v: "of_int (round_half_even (a / 2 powi p)) * 2 powi p = a"
    by simp
  have sgn: "(if of_int n < (0::rat) then - a else a) = of_int n"
    by (simp add: a_def)
  have n0: "(of_int n :: rat) \<noteq> 0" using False by simp
  show ?thesis
    unfolding rnd_def Let_def abs_a e_def [symmetric] p_def [symmetric] v
    using n0 apos e53 sgn by simp
qed

lemma float_py_int_exact:
  assumes "\<bar>n\<bar> \<le> 2 ^ 53"
  shows "float_py (JInt n) = Inr (Val (of_int n))"
  by (simp add: float_py_def rnd_of_int_exact [OF assms])

lemma rnd_error:
  assumes "rnd q = Val v"
  shows "\<bar>v - q\<bar> \<le> 2 powi (max (ilog2 \<bar>q\<bar> - 52) (- 1074)) / 2"
proof (cases "q = 0")
  case True
  with assms show ?thesis by (simp add: rnd_def)
next
  case False
  define p where "p = max (ilog2 \<bar>q\<bar> - 52) (- 1074)"
  define m where "m = round_half_even (\<bar>q\<bar> / 2 powi p)"
  have pos: "0 < (2::rat) powi p" by simp
  from round_half_even_nearest [of "\<bar>q\<bar> / 2 powi p"]
  have "\<bar>of_int m - \<bar>q\<bar> / 2 powi p\<bar> * 2 powi p \<le> 1 / 2 * 2 powi p"
    unfolding m_def by (intro mult_right_mono) simp_all
  also have "\<bar>of_int m - \<bar>q\<bar> / 2 powi p\<bar> * 2 powi p = \<bar>of_int m * 2 powi p - \<bar>q\<bar>\<bar>"
  proof -
    have "\<bar>of_int m - \<bar>q\<bar> / 2 powi p\<bar> * 2 powi p = \<bar>(of_int m - \<bar>q\<bar> / 2 powi p) * 2 powi p\<bar>"
      by (simp add: abs_mult)
    also have "(of_int m - \<bar>q\<bar> / 2 powi p) * 2 powi p = of_int m * 2 powi p - \<bar>q\<bar>"
      by (simp add: algebra_simps)
    finally show ?thesis .
  qed
  finally have near: "\<bar>of_int m * 2 powi p - \<bar>q\<bar>\<bar> \<le> 2 powi p / 2"
    by simp
  from assms False have "v = (if q < 0 then - (of_int m * 2 powi p) else of_int m * 2 powi p)"
    unfolding rnd_def Let_def p_def [symmetric] m_def [symmetric]
    by (auto split: if_splits)
  with near show ?thesis
    unfolding p_def [symmetric] by (auto simp: abs_if split: if_splits)
qed

lemma py_round_nearest:
  assumes "q \<noteq> 0" and "n \<le> 323"
  shows "\<exists>k. \<bar>of_int k / 10 ^ n - q\<bar> \<le> 1 / (2 * 10 ^ n) \<and>
    py_round (Val q) n = (if k = 0 then zero_of (q < 0) else rnd (of_int k / 10 ^ n))"
proof -
  define k where "k = round_half_even (q * 10 ^ n)"
  from round_half_even_nearest [of "q * 10 ^ n"]
  have "\<bar>of_int k - q * 10 ^ n\<bar> / 10 ^ n \<le> (1 / 2) / 10 ^ n"
    unfolding k_def by (intro divide_right_mono) simp_all
  also have "\<bar>of_int k - q * 10 ^ n\<bar> / 10 ^ n = \<bar>of_int k / 10 ^ n - q\<bar>"
  proof -
    have "\<bar>of_int k - q * 10 ^ n\<bar> / 10 ^ n = \<bar>(of_int k - q * 10 ^ n) / 10 ^ n\<bar>"
      by simp
    also have "(of_int k - q * 10 ^ n) / 10 ^ n = of_int k / 10 ^ n - q"
      by (simp add: field_simps)
    finally show ?thesis .
  qed
  finally have "\<bar>of_int k / 10 ^ n - q\<bar> \<le> 1 / (2 * 10 ^ n)"
    by simp
  moreover have "py_round (Val q) n = (if k = 0 then zero_of (q < 0) else rnd (of_int k / 10 ^ n))"
    using assms by (simp add: py_round_def k_def Let_def)
  ultimately show ?thesis by blast
qed

lemma float_eq_int_zero: "float_eq_int z 0 = is_zero z"
  by (cases z) (auto simp: float_eq_int_def is_zero_def)

subsection \<open>Reaching the calculation\<close>

lemma first_missing_obj:
  "first_missing (JObj kvs) fs = Inr (find (\<lambda>f. map_of kvs (asc f) = None) fs)"
  by (induction fs) (auto simp: py_in_def)

lemma getitem_obj:
  assumes "getitem data key = Inr v"
  shows "\<exists>kvs. data = JObj kvs \<and> map_of kvs key = Some v"
  using assms by (auto simp: getitem_def split: json.splits option.splits)

lemma try_body_fields:
  assumes "getitem data (asc ''num1'') = Inr num1"
    and "getitem data (asc ''operator'') = Inr operator"
    and "getitem data (asc ''num2'') = Inr num2"
  shows "try_body data = validate_and_calculate num1 operator num2"
proof -
  from getitem_obj [OF assms(1)] obtain kvs
    where d: "data = JObj kvs" and k1: "map_of kvs (asc ''num1'') = Some num1" by blast
  from assms(2) d have k2: "map_of kvs (asc ''operator'') = Some operator"
    by (auto simp: getitem_def split: option.splits)
  from assms(3) d have k3: "map_of kvs (asc ''num2'') = Some num2"
    by (auto simp: getitem_def split: option.splits)
  from k1 have ne: "kvs \<noteq> []" by auto
  show ?thesis
    using ne k1 k2 k3
    by (simp add: try_body_def d falsy_def first_missing_obj required_fields_def getitem_def
        del: first_missing.simps)
qed

lemma has_fields_request: "has_fields (request num1 operator num2) num1 operator num2"
  by (simp add: has_fields_def request_def getitem_def asc_def)

lemma try_body_has_fields:
  assumes "has_fields data num1 operator num2"
  shows "try_body data = validate_and_calculate num1 operator num2"
  using assms by (simp add: has_fields_def try_body_fields)

lemma api_calculate_raises:
  assumes "has_fields data num1 operator num2"
    and "validate_numbers num1 num2 = Inr u"
    and "calculate num1 operator num2 = Inl e"
  shows "api_calculate (Inr data) =
    ([Calculate num1 operator num2, Log_error], handle_exception e)"
  using assms(2,3)
  by (simp add: api_calculate_def try_body_has_fields [OF assms(1)]
      validate_and_calculate_def calculate_and_format_def)

lemma api_calculate_returns:
  assumes "has_fields data num1 operator num2"
    and "validate_numbers num1 num2 = Inr u"
    and "calculate num1 operator num2 = Inr x"
  shows "api_calculate (Inr data) = (case format_result x of
       Inl e \<Rightarrow> ([Calculate num1 operator num2, Log_error], handle_exception e)
     | Inr v \<Rightarrow> ([Calculate num1 operator num2, Log_info], success v))"
  using assms(2,3)
  by (simp add: api_calculate_def try_body_has_fields [OF assms(1)]
      validate_and_calculate_def calculate_and_format_def split: sum.splits)

lemma api_calculate_validation_raises:
  assumes "has_fields data num1 operator num2"
    and "validate_numbers num1 num2 = Inl e"
    and "e \<noteq> TypeError" and "\<forall>m. e \<noteq> ValueError m"
  shows "api_calculate (Inr data) = ([Log_error], handle_exception e)"
  using assms(2-4)
  by (cases e) (simp_all add: api_calculate_def try_body_has_fields [OF assms(1)]
      validate_and_calculate_def)

lemma operation_returns:
  assumes "map_of operations s = Some f" and "f a b = Inr x"
  shows "validate_numbers a b = Inr ()"
proof -
  from assms(1) have "f = add \<or> f = subtract \<or> f = multiply \<or> f = divide"
    by (auto simp: operations_def split: if_splits)
  with assms(2) show ?thesis
    by (auto simp: add_def subtract_def multiply_def divide_def validate_numbers_def
        split: sum.splits if_splits)
qed

lemma calculate_returns_validated:
  assumes "calculate num1 operator num2 = Inr x"
  shows "validate_numbers num1 num2 = Inr ()"
proof -
  from assms obtain f where "lookup_operation operator = Inr (Some f)" and f: "f num1 num2 = Inr x"
    by (auto simp: calculate_def split: sum.splits option.splits)
  then obtain s where "map_of operations s = Some f"
    by (cases operator) (auto simp: lookup_operation_def)
  from operation_returns [OF this f] show ?thesis .
qed

subsection \<open>Formatting the result\<close>

lemma format_result_finite:
  assumes "is_finite x"
  shows "format_result x =
    Inr (if is_integer x then VInt \<lfloor>value_of x\<rfloor> else VFloat (py_round x 10))"
proof (cases x)
  case (Val q)
  show ?thesis
  proof (cases "0 \<le> q")
    case True
    then show ?thesis using Val
      by (auto simp: format_result_def int_py_def float_eq_int_def is_integer_def
          is_finite_def value_of_def)
  next
    case False
    have "q = of_int \<lceil>q\<rceil> \<longleftrightarrow> of_int \<lfloor>q\<rfloor> = q"
      by (metis ceiling_of_int floor_of_int)
    moreover have "q = of_int \<lceil>q\<rceil> \<Longrightarrow> \<lceil>q\<rceil> = \<lfloor>q\<rfloor>"
      by (metis floor_of_int)
    ultimately show ?thesis using Val False
      by (auto simp: format_result_def int_py_def float_eq_int_def is_integer_def
          is_finite_def value_of_def)
  qed
qed (use assms in \<open>auto simp: format_result_def int_py_def float_eq_int_def is_integer_def
          is_finite_def value_of_def\<close>)

lemma format_result_not_finite:
  "format_result NaN = Inl (ValueError (Text ''cannot convert float NaN to integer''))"
  "format_result PInf = Inl OverflowError"
  "format_result NInf = Inl OverflowError"
  by (simp_all add: format_result_def int_py_def)

lemma format_result_cases:
  "(\<exists>e. format_result x = Inl e \<and> \<not> is_finite x) \<or>
   (format_result x = Inr (if is_integer x then VInt \<lfloor>value_of x\<rfloor> else VFloat (py_round x 10))
      \<and> is_finite x)"
proof (cases "is_finite x")
  case True
  then show ?thesis by (simp add: format_result_finite)
next
  case False
  then show ?thesis
    by (cases x) (simp_all add: format_result_not_finite is_finite_def)
qed

subsection \<open>The responses of \<^verbatim>\<open>api_calculate\<close>\<close>

lemma calculate_and_format_cases:
  "(\<exists>e evs. calculate_and_format num1 operator num2 = (evs, Inl e)) \<or>
   (\<exists>x. calculate num1 operator num2 = Inr x \<and> is_finite x \<and>
      calculate_and_format num1 operator num2 =
        ([Calculate num1 operator num2, Log_info],
         Inr (success (if is_integer x then VInt \<lfloor>value_of x\<rfloor>
                       else VFloat (py_round x 10)))))"
proof (cases "calculate num1 operator num2")
  case (Inl e)
  then show ?thesis by (simp add: calculate_and_format_def)
next
  case (Inr x)
  with format_result_cases [of x] show ?thesis
    by (auto simp: calculate_and_format_def)
qed

lemma validate_and_calculate_cases:
  "(\<exists>e evs. validate_and_calculate num1 operator num2 = (evs, Inl e)) \<or>
   validate_and_calculate num1 operator num2 = ([], Inr invalid_number) \<or>
   (\<exists>x. calculate num1 operator num2 = Inr x \<and> is_finite x \<and>
      validate_and_calculate num1 operator num2 =
        ([Calculate num1 operator num2, Log_info],
         Inr (success (if is_integer x then VInt \<lfloor>value_of x\<rfloor>
                       else VFloat (py_round x 10)))))"
  using calculate_and_format_cases [of num1 operator num2]
  by (auto simp: validate_and_calculate_def split: sum.splits exn.splits)

lemma try_body_cases:
  "(\<exists>e evs. try_body data = (evs, Inl e)) \<or>
   try_body data = ([], Inr no_data) \<or>
   (\<exists>f. try_body data = ([], Inr (missing_field f))) \<or>
   try_body data = ([], Inr invalid_number) \<or>
   (\<exists>num1 operator num2 x. has_fields data num1 operator num2 \<and>
      calculate num1 operator num2 = Inr x \<and> is_finite x \<and>
      try_body data =
        ([Calculate num1 operator num2, Log_info],
         Inr (success (if is_integer x then VInt \<lfloor>value_of x\<rfloor>
                       else VFloat (py_round x 10)))))"
proof (cases "\<exists>num1 operator num2. has_fields data num1 operator num2")
  case True
  then obtain num1 operator num2 where f: "has_fields data num1 operator num2" by blast
  show ?thesis
    using validate_and_calculate_cases [of num1 operator num2] f
    unfolding try_body_has_fields [OF f] by blast
next
  case False
  then show ?thesis
    by (auto simp: try_body_def has_fields_def split: sum.splits option.splits)
qed

lemma api_calculate_cases:
  "(\<exists>evs. api_calculate got = (evs, unexpected_error)) \<or>
   (\<exists>evs m. api_calculate got = (evs, calculation_error m)) \<or>
   api_calculate got = ([], no_data) \<or>
   (\<exists>f. api_calculate got = ([], missing_field f)) \<or>
   api_calculate got = ([], invalid_number) \<or>
   (\<exists>data num1 operator num2 x. got = Inr data \<and> has_fields data num1 operator num2 \<and>
      calculate num1 operator num2 = Inr x \<and> is_finite x \<and>
      api_calculate got =
        ([Calculate num1 operator num2, Log_info],
         success (if is_integer x then VInt \<lfloor>value_of x\<rfloor> else VFloat (py_round x 10))))"
proof (cases got)
  case (Inl e)
  then show ?thesis
    by (cases e) (auto simp: api_calculate_def handle_exception_def)
next
  case (Inr data)
  from try_body_cases [of data] show ?thesis
  proof (elim disjE exE conjE)
    fix e evs assume "try_body data = (evs, Inl e)"
    then show ?thesis using Inr
      by (cases e) (auto simp: api_calculate_def handle_exception_def)
  next
    assume "try_body data = ([], Inr no_data)"
    then show ?thesis using Inr by (simp add: api_calculate_def)
  next
    fix f assume "try_body data = ([], Inr (missing_field f))"
    then have "api_calculate got = ([], missing_field f)"
      using Inr by (simp add: api_calculate_def)
    then show ?thesis by blast
  next
    assume "try_body data = ([], Inr invalid_number)"
    then show ?thesis using Inr by (simp add: api_calculate_def)
  next
    fix num1 operator num2 x
    assume f: "has_fields data num1 operator num2"
      and c: "calculate num1 operator num2 = Inr x" and fin: "is_finite x"
      and t: "try_body data =
        ([Calculate num1 operator num2, Log_info],
         Inr (success (if is_integer x then VInt \<lfloor>value_of x\<rfloor>
                       else VFloat (py_round x 10))))"
    from t have "api_calculate got =
        ([Calculate num1 operator num2, Log_info],
         success (if is_integer x then VInt \<lfloor>value_of x\<rfloor> else VFloat (py_round x 10)))"
      using Inr by (simp add: api_calculate_def)
    with Inr f c fin show ?thesis by blast
  qed
qed

subsection \<open>The operations\<close>

lemma calculate_slash: "calculate a (JStr (asc ''/'')) b = divide a b"
  by (simp add: calculate_def lookup_operation_def operations_def asc_def)

lemma float_py_not_invalid_operator: "float_py v \<noteq> Inl (invalid_operator w)"
  by (auto simp: float_py_def invalid_operator_def split: json.splits pyfloat.splits option.splits)

lemma operation_not_invalid_operator:
  assumes "map_of operations s = Some f"
  shows "f a b \<noteq> Inl (invalid_operator w)"
proof -
  from assms have "f = add \<or> f = subtract \<or> f = multiply \<or> f = divide"
    by (auto simp: operations_def split: if_splits)
  moreover have "add a b \<noteq> Inl (invalid_operator w)"
    using float_py_not_invalid_operator [of a w] float_py_not_invalid_operator [of b w]
    by (auto simp: add_def split: sum.splits)
  moreover have "subtract a b \<noteq> Inl (invalid_operator w)"
    using float_py_not_invalid_operator [of a w] float_py_not_invalid_operator [of b w]
    by (auto simp: subtract_def split: sum.splits)
  moreover have "multiply a b \<noteq> Inl (invalid_operator w)"
    using float_py_not_invalid_operator [of a w] float_py_not_invalid_operator [of b w]
    by (auto simp: multiply_def split: sum.splits)
  moreover have "divide a b \<noteq> Inl (invalid_operator w)"
    using float_py_not_invalid_operator [of a w] float_py_not_invalid_operator [of b w]
    by (auto simp: divide_def py_truediv_def invalid_operator_def split: sum.splits if_splits)
  ultimately show ?thesis by auto
qed

lemma lookup_operation_hashable:
  assumes "hashable operator"
  shows "lookup_operation operator =
    Inr (case operator of JStr s \<Rightarrow> map_of operations s | _ \<Rightarrow> None)"
  using assms by (cases operator) (simp_all add: hashable_def lookup_operation_def)

lemma not_key_iff:
  "operator \<notin> set (map (JStr \<circ> fst) operations) \<longleftrightarrow>
   (case operator of JStr s \<Rightarrow> map_of operations s | _ \<Rightarrow> None) = None"
  by (cases operator) (auto simp: map_of_eq_None_iff)

text \<open>On integers that are floats, with a sum that is one, \<^verbatim>\<open>+\<close> is exact.\<close>

lemma calculate_plus_int:
  assumes "\<bar>m\<bar> \<le> 2 ^ 53" and "\<bar>n\<bar> \<le> 2 ^ 53" and "\<bar>m + n\<bar> \<le> 2 ^ 53"
  shows "calculate (JInt m) (JStr (asc ''+'')) (JInt n) = Inr (Val (of_int (m + n)))"
proof -
  have "calculate (JInt m) (JStr (asc ''+'')) (JInt n) = add (JInt m) (JInt n)"
    by (simp add: calculate_def lookup_operation_def operations_def asc_def)
  also have "\<dots> = Inr (fadd (Val (of_int m)) (Val (of_int n)))"
    by (simp add: add_def float_py_int_exact [OF assms(1)] float_py_int_exact [OF assms(2)])
  also have "fadd (Val (of_int m)) (Val (of_int n)) = Val (of_int (m + n))"
    using rnd_of_int_exact [OF assms(3)]
    by (auto simp: fadd_def is_finite_def value_of_def zero_of_def simp flip: of_int_add)
  finally show ?thesis .
qed

text \<open>
  C9.  \<^verbatim>\<open>calculate(2, "+", 3)\<close> returns 5, and for all operands \<open>a\<close> and \<open>b\<close> the
  result under \<^verbatim>\<open>+\<close> is \<^verbatim>\<open>float(a) + float(b)\<close>: both operands are converted, \<open>a\<close>
  first, an exception of a conversion is the outcome, and the float addition is
  applied otherwise.  The same holds for \<^verbatim>\<open>-\<close> and \<^verbatim>\<open>*\<close> with the float subtraction
  and multiplication.
\<close>

theorem calculate_plus:
  "calculate (JInt 2) (JStr (asc ''+'')) (JInt 3) = Inr (Val 5) \<and>
   calculate a (JStr (asc ''+'')) b =
     (case float_py a of Inl e \<Rightarrow> Inl e
      | Inr x \<Rightarrow> (case float_py b of Inl e \<Rightarrow> Inl e | Inr y \<Rightarrow> Inr (fadd x y))) \<and>
   calculate a (JStr (asc ''-'')) b =
     (case float_py a of Inl e \<Rightarrow> Inl e
      | Inr x \<Rightarrow> (case float_py b of Inl e \<Rightarrow> Inl e | Inr y \<Rightarrow> Inr (fsub x y))) \<and>
   calculate a (JStr (asc ''*'')) b =
     (case float_py a of Inl e \<Rightarrow> Inl e
      | Inr x \<Rightarrow> (case float_py b of Inl e \<Rightarrow> Inl e | Inr y \<Rightarrow> Inr (fmul x y)))"
proof -
  have "calculate (JInt 2) (JStr (asc ''+'')) (JInt 3) = Inr (Val 5)"
    by code_simp
  moreover have "calculate a (JStr (asc ''+'')) b = add a b"
    by (simp add: calculate_def lookup_operation_def operations_def asc_def)
  moreover have "calculate a (JStr (asc ''-'')) b = subtract a b"
    by (simp add: calculate_def lookup_operation_def operations_def asc_def)
  moreover have "calculate a (JStr (asc ''*'')) b = multiply a b"
    by (simp add: calculate_def lookup_operation_def operations_def asc_def)
  ultimately show ?thesis
    by (simp add: add_def subtract_def multiply_def)
qed

theorem calculate_plus_witness:
  "calculate (JStr (asc ''1.5'')) (JStr (asc ''+'')) (JBool True) = Inr (Val (5 / 2))"
proof -
  have "(case float_py (JStr (asc ''1.5'')) of Inl e \<Rightarrow> Inl e
      | Inr x \<Rightarrow> (case float_py (JBool True) of Inl e \<Rightarrow> Inl e | Inr y \<Rightarrow> Inr (fadd x y)))
      = Inr (Val (5 / 2))"
    by code_simp
  with calculate_plus [of "JStr (asc ''1.5'')" "JBool True"] show ?thesis
    by simp
qed

subsection \<open>Division by zero\<close>

text \<open>
  C3.  Let \<open>b\<close> convert to the float \<open>z\<close>.  If \<open>z\<close> is zero, then \<^verbatim>\<open>divide(a, b)\<close>, and
  with it \<^verbatim>\<open>calculate(a, "/", b)\<close>, fails with DivisionByZero whatever \<open>a\<close> is; if \<open>z\<close>
  is not zero, it is \<^verbatim>\<open>float(a) / float(b)\<close>.  \<^verbatim>\<open>calculate(2, "/", 0)\<close> fails with
  DivisionByZero.  A request with the operator \<^verbatim>\<open>/\<close>, a numeric first operand and
  a second operand that converts to zero calls \<^verbatim>\<open>calculate\<close> and is answered with
  status 400, \<^verbatim>\<open>success\<close> false and the text of the failure.
\<close>

theorem divide_by_zero:
  assumes "float_py b = Inr z"
  shows "(is_zero z \<longrightarrow>
            divide a b = Inl division_by_zero \<and>
            calculate a (JStr (asc ''/'')) b = Inl division_by_zero) \<and>
         (\<not> is_zero z \<longrightarrow>
            divide a b = (case float_py a of Inl e \<Rightarrow> Inl e | Inr x \<Rightarrow> Inr (fdiv x z)) \<and>
            calculate a (JStr (asc ''/'')) b = divide a b) \<and>
         calculate (JInt 2) (JStr (asc ''/'')) (JInt 0) = Inl division_by_zero \<and>
         (is_zero z \<longrightarrow> float_py a = Inr x \<longrightarrow>
          has_fields data a (JStr (asc ''/'')) b \<longrightarrow>
            api_calculate (Inr data) =
              ([Calculate a (JStr (asc ''/'')) b, Log_error],
               \<lparr>status = 400,
                body = [(''success'', VBool False),
                        (''error'', VStr (Text ''Division by zero is not allowed''))]\<rparr>))"
proof -
  have zero: "divide a b = Inl division_by_zero" if "is_zero z"
    using assms that by (simp add: divide_def float_eq_int_zero division_by_zero_def)
  have nonzero: "divide a b = (case float_py a of Inl e \<Rightarrow> Inl e | Inr x \<Rightarrow> Inr (fdiv x z))"
    if "\<not> is_zero z"
    using assms that
    by (simp add: divide_def float_eq_int_zero py_truediv_def split: sum.splits)
  have two: "calculate (JInt 2) (JStr (asc ''/'')) (JInt 0) = Inl division_by_zero"
    by (simp add: calculate_slash divide_def float_py_def rnd_def float_eq_int_def
        division_by_zero_def)
  have handler: "api_calculate (Inr data) =
      ([Calculate a (JStr (asc ''/'')) b, Log_error],
       \<lparr>status = 400,
        body = [(''success'', VBool False),
                (''error'', VStr (Text ''Division by zero is not allowed''))]\<rparr>)"
    if "is_zero z" and "float_py a = Inr x" and f: "has_fields data a (JStr (asc ''/'')) b"
  proof -
    have "validate_numbers a b = Inr ()"
      using assms that by (simp add: validate_numbers_def)
    moreover have "calculate a (JStr (asc ''/'')) b = Inl division_by_zero"
      using zero that by (simp add: calculate_slash)
    ultimately show ?thesis
      using api_calculate_raises [OF f]
      by (simp add: handle_exception_def division_by_zero_def calculation_error_def)
  qed
  from zero nonzero two handler show ?thesis
    by (simp add: calculate_slash)
qed

text \<open>
  C3 at the divisors \<^verbatim>\<open>"0.0"\<close>, which converts to zero, and \<^verbatim>\<open>4\<close>, which does not.
\<close>

theorem divide_by_zero_witness:
  "float_py (JStr (asc ''0.0'')) = Inr (Val 0) \<and>
   divide (JInt 2) (JStr (asc ''0.0'')) = Inl division_by_zero \<and>
   api_calculate (Inr (request (JInt 2) (JStr (asc ''/'')) (JStr (asc ''0.0'')))) =
     ([Calculate (JInt 2) (JStr (asc ''/'')) (JStr (asc ''0.0'')), Log_error],
      \<lparr>status = 400,
       body = [(''success'', VBool False),
               (''error'', VStr (Text ''Division by zero is not allowed''))]\<rparr>) \<and>
   float_py (JInt 4) = Inr (Val 4) \<and>
   divide (JInt 2) (JInt 4) = Inr (Val (1 / 2))"
proof -
  have b: "float_py (JStr (asc ''0.0'')) = Inr (Val 0)" by code_simp
  have a: "float_py (JInt 2) = Inr (Val 2)" by code_simp
  have c: "float_py (JInt 4) = Inr (Val 4)" by code_simp
  have d: "fdiv (Val 2) (Val 4) = Val (1 / 2)" by code_simp
  from divide_by_zero [OF b, of "JInt 2" "Val 2"
      "request (JInt 2) (JStr (asc ''/'')) (JStr (asc ''0.0''))"]
    divide_by_zero [OF c, of "JInt 2"]
  show ?thesis
    by (simp add: a b c d is_zero_def has_fields_request)
qed

subsection \<open>The operator\<close>

text \<open>
  C1.  The keys of \<^verbatim>\<open>operations\<close> that the comments of the source call the
  alternative multiplication and division symbols are not the multiplication
  sign U+00D7 and the division sign U+00F7.  With \<^verbatim>\<open>\<times>\<close> as operator \<^verbatim>\<open>calculate(2, \<times>, 3)\<close>
  fails with InvalidOperator where \<^verbatim>\<open>calculate(2, "*", 3)\<close> returns 6, and with \<^verbatim>\<open>\<div>\<close>
  \<^verbatim>\<open>calculate(6, \<div>, 3)\<close> fails where \<^verbatim>\<open>calculate(6, "/", 3)\<close> returns 2.  The key that
  is in the dictionary, U+0E23 U+0097, multiplies.
\<close>

theorem calculate_times_division_signs:
  "calculate (JInt 2) (JStr [0xD7]) (JInt 3) = Inl (invalid_operator (JStr [0xD7])) \<and>
   calculate (JInt 2) (JStr (asc ''*'')) (JInt 3) = Inr (Val 6) \<and>
   calculate (JInt 6) (JStr [0xF7]) (JInt 3) = Inl (invalid_operator (JStr [0xF7])) \<and>
   calculate (JInt 6) (JStr (asc ''/'')) (JInt 3) = Inr (Val 2) \<and>
   calculate (JInt 2) (JStr [0xE23, 0x97]) (JInt 3) = Inr (Val 6)"
  by code_simp

text \<open>
  C4, as the claim states it, at the operator \<^verbatim>\<open>[]\<close>: the empty list is not a key
  of \<^verbatim>\<open>operations\<close>, yet \<^verbatim>\<open>calculate(1, [], 2)\<close> fails with a \<^verbatim>\<open>TypeError\<close>, since a list
  cannot be hashed, and not with InvalidOperator; the request is answered with
  status 500.
\<close>

theorem calculate_list_operator:
  "JList [] \<notin> set (map (JStr \<circ> fst) operations) \<and>
   calculate (JInt 1) (JList []) (JInt 2) = Inl TypeError \<and>
   api_calculate (Inr (request (JInt 1) (JList []) (JInt 2))) =
     ([Calculate (JInt 1) (JList []) (JInt 2), Log_error],
      \<lparr>status = 500,
       body = [(''success'', VBool False),
               (''error'', VStr (Text ''An unexpected error occurred''))]\<rparr>)"
proof -
  have "JList [] \<notin> set (map (JStr \<circ> fst) operations)"
    by (simp add: operations_def)
  moreover have c: "calculate (JInt 1) (JList []) (JInt 2) = Inl TypeError"
    by (simp add: calculate_def lookup_operation_def)
  moreover have "validate_numbers (JInt 1) (JInt 2) = Inr ()"
    by code_simp
  from api_calculate_raises [OF has_fields_request this c]
  have "api_calculate (Inr (request (JInt 1) (JList []) (JInt 2))) =
     ([Calculate (JInt 1) (JList []) (JInt 2), Log_error],
      \<lparr>status = 500,
       body = [(''success'', VBool False),
               (''error'', VStr (Text ''An unexpected error occurred''))]\<rparr>)"
    by (simp add: handle_exception_def unexpected_error_def)
  ultimately show ?thesis by simp
qed

text \<open>
  C4, amended.  For a hashable operator (a string, a number, a boolean or
  \<^verbatim>\<open>None\<close>), \<^verbatim>\<open>calculate\<close> fails with InvalidOperator exactly when the operator is not
  a key of \<^verbatim>\<open>operations\<close>; a request with such an operator and two operands that
  pass the validation calls \<^verbatim>\<open>calculate\<close> and is answered with status 400,
  \<^verbatim>\<open>success\<close> false and the text of InvalidOperator.
\<close>

theorem calculate_invalid_operator:
  assumes "hashable operator"
  shows "(calculate num1 operator num2 = Inl (invalid_operator operator)) =
           (operator \<notin> set (map (JStr \<circ> fst) operations)) \<and>
         (operator \<notin> set (map (JStr \<circ> fst) operations) \<longrightarrow>
          has_fields data num1 operator num2 \<longrightarrow>
          validate_numbers num1 num2 = Inr () \<longrightarrow>
            api_calculate (Inr data) =
              ([Calculate num1 operator num2, Log_error],
               \<lparr>status = 400,
                body = [(''success'', VBool False),
                        (''error'', VStr (Text_str ''Invalid operator: '' operator))]\<rparr>))"
proof -
  have iff: "(calculate num1 operator num2 = Inl (invalid_operator operator)) =
      (operator \<notin> set (map (JStr \<circ> fst) operations))"
  proof (cases "(case operator of JStr s \<Rightarrow> map_of operations s | _ \<Rightarrow> None)")
    case None
    then show ?thesis
      unfolding not_key_iff using assms
      by (simp add: calculate_def lookup_operation_hashable invalid_operator_def)
  next
    case (Some f)
    then obtain s where "operator = JStr s" and "map_of operations s = Some f"
      by (cases operator) auto
    then show ?thesis
      unfolding not_key_iff
      using operation_not_invalid_operator [of s f num1 num2 operator] Some assms
      by (simp add: calculate_def lookup_operation_hashable)
  qed
  moreover have "api_calculate (Inr data) =
      ([Calculate num1 operator num2, Log_error],
       \<lparr>status = 400,
        body = [(''success'', VBool False),
                (''error'', VStr (Text_str ''Invalid operator: '' operator))]\<rparr>)"
    if "operator \<notin> set (map (JStr \<circ> fst) operations)"
      and f: "has_fields data num1 operator num2"
      and v: "validate_numbers num1 num2 = Inr ()"
  proof -
    from iff that(1) have "calculate num1 operator num2 = Inl (invalid_operator operator)"
      by simp
    from api_calculate_raises [OF f v this] show ?thesis
      by (simp add: handle_exception_def invalid_operator_def calculation_error_def)
  qed
  ultimately show ?thesis by blast
qed

text \<open>C4, amended, at the operator \<^verbatim>\<open>^\<close> with the operands 2 and 3.\<close>

theorem calculate_invalid_operator_witness:
  "hashable (JStr (asc ''^'')) \<and>
   calculate (JInt 2) (JStr (asc ''^'')) (JInt 3) = Inl (invalid_operator (JStr (asc ''^''))) \<and>
   api_calculate (Inr (request (JInt 2) (JStr (asc ''^'')) (JInt 3))) =
     ([Calculate (JInt 2) (JStr (asc ''^'')) (JInt 3), Log_error],
      \<lparr>status = 400,
       body = [(''success'', VBool False),
               (''error'', VStr (Text_str ''Invalid operator: '' (JStr (asc ''^''))))]\<rparr>)"
proof -
  have h: "hashable (JStr (asc ''^''))"
    by (simp add: hashable_def)
  have k: "JStr (asc ''^'') \<notin> set (map (JStr \<circ> fst) operations)"
    by (simp add: operations_def asc_def)
  have v: "validate_numbers (JInt 2) (JInt 3) = Inr ()"
    by code_simp
  from calculate_invalid_operator [OF h, of "JInt 2" "JInt 3"
      "request (JInt 2) (JStr (asc ''^'')) (JInt 3)"] h k v
  show ?thesis
    by (simp add: has_fields_request)
qed

subsection \<open>Missing fields and invalid numbers\<close>

text \<open>
  C5, as the claim states it, at the empty JSON object: it counts as false, so
  the handler answers \<^verbatim>\<open>No data provided\<close> before it looks for a field, and the
  response is none of the three MissingField responses.
\<close>

theorem api_calculate_empty_object:
  "api_calculate (Inr (JObj [])) =
     ([], \<lparr>status = 400,
           body = [(''success'', VBool False), (''error'', VStr (Text ''No data provided''))]\<rparr>) \<and>
   snd (api_calculate (Inr (JObj []))) \<notin> set (map missing_field required_fields)"
  by (simp add: api_calculate_def try_body_def falsy_def no_data_def required_fields_def
      missing_field_def)

text \<open>
  C5, amended.  For a JSON object that is not empty and lacks at least one of the
  fields \<^verbatim>\<open>num1\<close>, \<^verbatim>\<open>operator\<close>, \<^verbatim>\<open>num2\<close>, the handler answers with status 400,
  \<^verbatim>\<open>success\<close> false and the MissingField error that names the first field, in this
  order, that the object lacks; nothing is calculated or logged.
\<close>

theorem api_calculate_missing_field:
  assumes "kvs \<noteq> []"
    and "\<exists>f \<in> set required_fields. map_of kvs (asc f) = None"
  shows "\<exists>f \<in> set required_fields.
     find (\<lambda>g. map_of kvs (asc g) = None) required_fields = Some f \<and>
     map_of kvs (asc f) = None \<and>
     api_calculate (Inr (JObj kvs)) =
       ([], \<lparr>status = 400,
             body = [(''success'', VBool False),
                     (''error'', VStr (Text (''Missing required field: '' @ f)))]\<rparr>)"
proof -
  from assms(2) obtain f
    where f: "find (\<lambda>f. map_of kvs (asc f) = None) required_fields = Some f"
    by (cases "find (\<lambda>f. map_of kvs (asc f) = None) required_fields")
      (auto simp: find_None_iff)
  then have "f \<in> set required_fields" and "map_of kvs (asc f) = None"
    by (auto simp: find_Some_iff)
  moreover have "api_calculate (Inr (JObj kvs)) = ([], missing_field f)"
    using assms(1) f
    by (simp add: api_calculate_def try_body_def falsy_def first_missing_obj)
  ultimately show ?thesis
    using f by (auto simp: missing_field_def)
qed

text \<open>C5, amended, at the object with \<^verbatim>\<open>num1\<close> and \<^verbatim>\<open>num2\<close> only.\<close>

theorem api_calculate_missing_field_witness:
  "[(asc ''num1'', JInt 1), (asc ''num2'', JInt 2)] \<noteq> [] \<and>
   (\<exists>f \<in> set required_fields.
      map_of [(asc ''num1'', JInt 1), (asc ''num2'', JInt 2)] (asc f) = None) \<and>
   api_calculate (Inr (JObj [(asc ''num1'', JInt 1), (asc ''num2'', JInt 2)])) =
     ([], \<lparr>status = 400,
           body = [(''success'', VBool False),
                   (''error'', VStr (Text ''Missing required field: operator''))]\<rparr>)"
proof -
  have ne: "[(asc ''num1'', JInt 1), (asc ''num2'', JInt 2)] \<noteq> []" by simp
  have ex: "\<exists>f \<in> set required_fields.
      map_of [(asc ''num1'', JInt 1), (asc ''num2'', JInt 2)] (asc f) = None"
    by (simp add: required_fields_def asc_def)
  have first: "find (\<lambda>g. map_of [(asc ''num1'', JInt 1), (asc ''num2'', JInt 2)] (asc g) = None)
      required_fields = Some ''operator''"
    by (simp add: required_fields_def asc_def)
  from api_calculate_missing_field [OF ne ex] obtain f
    where "find (\<lambda>g. map_of [(asc ''num1'', JInt 1), (asc ''num2'', JInt 2)] (asc g) = None)
        required_fields = Some f"
      and r: "api_calculate (Inr (JObj [(asc ''num1'', JInt 1), (asc ''num2'', JInt 2)])) =
        ([], \<lparr>status = 400,
              body = [(''success'', VBool False),
                      (''error'', VStr (Text (''Missing required field: '' @ f)))]\<rparr>)"
    by blast
  with first have "f = ''operator''" by simp
  with r ne ex show ?thesis by simp
qed

lemma validate_numbers_not_a_number:
  assumes "not_a_number num1 \<or> (\<exists>x. float_py num1 = Inr x) \<and> not_a_number num2"
  shows "validate_numbers num1 num2 = Inl TypeError \<or>
    (\<exists>m. validate_numbers num1 num2 = Inl (ValueError m))"
  using assms
  by (auto simp: not_a_number_def validate_numbers_def split: sum.splits exn.splits)

text \<open>
  C6, as the claim states it, at the operands \<open>2 ^ 1024\<close> and \<^verbatim>\<open>"abc"\<close>: the second
  cannot be parsed as a number, but the conversion of the first, an integer too
  large for a float, raises \<^verbatim>\<open>OverflowError\<close> before, which the validation does not
  catch; the request is answered with status 500.
\<close>

theorem api_calculate_huge_operand:
  "not_a_number (JStr (asc ''abc'')) \<and>
   api_calculate (Inr (request (JInt (2 ^ 1024)) (JStr (asc ''+'')) (JStr (asc ''abc'')))) =
     ([Log_error],
      \<lparr>status = 500,
       body = [(''success'', VBool False),
               (''error'', VStr (Text ''An unexpected error occurred''))]\<rparr>)"
proof -
  have n: "not_a_number (JStr (asc ''abc''))" by code_simp
  have v: "validate_numbers (JInt (2 ^ 1024)) (JStr (asc ''abc'')) = Inl OverflowError"
    unfolding validate_numbers_def float_py_overflow by simp
  have h: "handle_exception OverflowError =
      \<lparr>status = 500,
       body = [(''success'', VBool False),
               (''error'', VStr (Text ''An unexpected error occurred''))]\<rparr>"
    by (simp add: handle_exception_def unexpected_error_def)
  have "api_calculate (Inr (request (JInt (2 ^ 1024)) (JStr (asc ''+'')) (JStr (asc ''abc'')))) =
      ([Log_error], handle_exception OverflowError)"
    by (rule api_calculate_validation_raises [OF has_fields_request v]) simp_all
  with n show ?thesis
    unfolding h by (rule conjI)
qed

text \<open>
  C6, amended.  For a JSON object with the three fields in which \<^verbatim>\<open>float(num1)\<close>
  raises \<^verbatim>\<open>ValueError\<close> or \<^verbatim>\<open>TypeError\<close>, or \<^verbatim>\<open>float(num1)\<close> returns and \<^verbatim>\<open>float(num2)\<close>
  raises one of the two, the handler answers with status 400, \<^verbatim>\<open>success\<close> false
  and \<^verbatim>\<open>Invalid number format\<close>; there is no event, so \<^verbatim>\<open>calculate\<close> is not called.
\<close>

theorem api_calculate_invalid_number:
  assumes "has_fields data num1 operator num2"
    and "not_a_number num1 \<or> (\<exists>x. float_py num1 = Inr x) \<and> not_a_number num2"
  shows "api_calculate (Inr data) =
     ([], \<lparr>status = 400,
           body = [(''success'', VBool False),
                   (''error'', VStr (Text ''Invalid number format''))]\<rparr>)"
  using validate_numbers_not_a_number [OF assms(2)]
  by (auto simp: api_calculate_def try_body_has_fields [OF assms(1)]
      validate_and_calculate_def invalid_number_def)

text \<open>C6, amended, at the operands 1 and \<^verbatim>\<open>"abc"\<close>.\<close>

theorem api_calculate_invalid_number_witness:
  "has_fields (request (JInt 1) (JStr (asc ''+'')) (JStr (asc ''abc'')))
     (JInt 1) (JStr (asc ''+'')) (JStr (asc ''abc'')) \<and>
   float_py (JInt 1) = Inr (Val 1) \<and> not_a_number (JStr (asc ''abc'')) \<and>
   api_calculate (Inr (request (JInt 1) (JStr (asc ''+'')) (JStr (asc ''abc'')))) =
     ([], \<lparr>status = 400,
           body = [(''success'', VBool False),
                   (''error'', VStr (Text ''Invalid number format''))]\<rparr>)"
proof -
  have a: "float_py (JInt 1) = Inr (Val 1)" by code_simp
  have b: "not_a_number (JStr (asc ''abc''))" by code_simp
  from a b have "not_a_number (JInt 1) \<or>
      (\<exists>x. float_py (JInt 1) = Inr x) \<and> not_a_number (JStr (asc ''abc''))"
    by simp
  from api_calculate_invalid_number [OF has_fields_request this] a b show ?thesis
    by (simp add: has_fields_request)
qed

subsection \<open>The result of a request\<close>

text \<open>
  C2.  When the body has the three fields and \<^verbatim>\<open>calculate\<close> returns \<open>x\<close>, the
  handler answers with \<^verbatim>\<open>success\<close> true exactly when \<open>x\<close> is finite, and the result
  of the response is then the integer \<open>x\<close> when \<open>x\<close> has no fractional part, and
  \<open>x\<close> rounded to ten decimal places otherwise.
\<close>

theorem api_calculate_result_format:
  assumes "has_fields data num1 operator num2"
    and "calculate num1 operator num2 = Inr x"
  shows "(map_of (body (snd (api_calculate (Inr data)))) ''success'' = Some (VBool True)) =
           is_finite x \<and>
         (is_finite x \<longrightarrow>
            api_calculate (Inr data) =
              ([Calculate num1 operator num2, Log_info],
               \<lparr>status = 200,
                body = [(''success'', VBool True),
                        (''result'', if is_integer x then VInt \<lfloor>value_of x\<rfloor>
                                     else VFloat (py_round x 10))]\<rparr>))"
proof -
  note r = api_calculate_returns [OF assms(1) calculate_returns_validated [OF assms(2)] assms(2)]
  show ?thesis
  proof (cases "is_finite x")
    case True
    then show ?thesis
      by (simp add: r format_result_finite success_def)
  next
    case False
    then have "x = NaN \<or> x = PInf \<or> x = NInf"
      by (cases x) (simp_all add: is_finite_def)
    with False show ?thesis
      by (auto simp: r format_result_not_finite handle_exception_def calculation_error_def
          unexpected_error_def)
  qed
qed

text \<open>
  C2 at \<^verbatim>\<open>1 / 3\<close>, whose result is serialized as the float nearest to
  \<open>0.3333333333\<close>, and at \<^verbatim>\<open>4.0 * 1\<close>, whose result \<^verbatim>\<open>4.0\<close> is serialized as the
  integer 4.
\<close>

theorem api_calculate_result_format_witness:
  "has_fields (request (JInt 1) (JStr (asc ''/'')) (JInt 3)) (JInt 1) (JStr (asc ''/'')) (JInt 3) \<and>
   calculate (JInt 1) (JStr (asc ''/'')) (JInt 3) =
     Inr (Val (6004799503160661 / 18014398509481984)) \<and>
   api_calculate (Inr (request (JInt 1) (JStr (asc ''/'')) (JInt 3))) =
     ([Calculate (JInt 1) (JStr (asc ''/'')) (JInt 3), Log_info],
      \<lparr>status = 200,
       body = [(''success'', VBool True),
               (''result'', VFloat (Val (6004799502560181 / 18014398509481984)))]\<rparr>) \<and>
   has_fields (request (JFloat (Val 4)) (JStr (asc ''*'')) (JInt 1))
     (JFloat (Val 4)) (JStr (asc ''*'')) (JInt 1) \<and>
   calculate (JFloat (Val 4)) (JStr (asc ''*'')) (JInt 1) = Inr (Val 4) \<and>
   api_calculate (Inr (request (JFloat (Val 4)) (JStr (asc ''*'')) (JInt 1))) =
     ([Calculate (JFloat (Val 4)) (JStr (asc ''*'')) (JInt 1), Log_info],
      \<lparr>status = 200, body = [(''success'', VBool True), (''result'', VInt 4)]\<rparr>)"
proof -
  have c: "calculate (JInt 1) (JStr (asc ''/'')) (JInt 3) =
      Inr (Val (6004799503160661 / 18014398509481984))"
    by code_simp
  have p: "py_round (Val (6004799503160661 / 18014398509481984)) 10 =
      Val (6004799502560181 / 18014398509481984)"
    by code_simp
  have i: "\<not> is_integer (Val (6004799503160661 / 18014398509481984))"
    by code_simp
  have d: "calculate (JFloat (Val 4)) (JStr (asc ''*'')) (JInt 1) = Inr (Val 4)"
    by code_simp
  have j: "is_integer (Val 4)"
    by (simp add: is_integer_def is_finite_def value_of_def)
  from api_calculate_result_format [OF has_fields_request c]
    api_calculate_result_format [OF has_fields_request d]
  show ?thesis
    by (simp add: has_fields_request c d p i j is_finite_def value_of_def)
qed

text \<open>
  C10, as the claim states it, at the request \<^verbatim>\<open>1 / inf\<close>: the operand \<^verbatim>\<open>inf\<close> is a
  string that \<^verbatim>\<open>float\<close> parses, and the request does not fail in the formatting of
  the result: the quotient is \<^verbatim>\<open>0.0\<close>, and the answer has status 200, \<^verbatim>\<open>success\<close>
  true and the result 0.
\<close>

theorem api_calculate_inf_divisor:
  "float_of_str (asc ''inf'') = Some PInf \<and>
   calculate (JInt 1) (JStr (asc ''/'')) (JStr (asc ''inf'')) = Inr (Val 0) \<and>
   api_calculate (Inr (request (JInt 1) (JStr (asc ''/'')) (JStr (asc ''inf'')))) =
     ([Calculate (JInt 1) (JStr (asc ''/'')) (JStr (asc ''inf'')), Log_info],
      \<lparr>status = 200, body = [(''success'', VBool True), (''result'', VInt 0)]\<rparr>)"
  by code_simp

text \<open>
  C10, amended.  \<^verbatim>\<open>float\<close> parses the strings \<^verbatim>\<open>nan\<close>, \<^verbatim>\<open>inf\<close> and \<^verbatim>\<open>-inf\<close>, and a
  string that \<^verbatim>\<open>float\<close> parses is an operand that \<^verbatim>\<open>float\<close> accepts.  When \<^verbatim>\<open>float\<close>
  accepts both operands of a body with the three fields, the validation passes
  and the handler goes on to the calculation; when the calculation returns NaN,
  the answer has status 400 and the text of the failure of \<^verbatim>\<open>int(result)\<close>; when
  it returns an infinity, the answer has status 500 and the generic text.  So
  the request \<^verbatim>\<open>nan + 1\<close> is answered with status 400 and the request \<^verbatim>\<open>inf + 1\<close>
  with status 500.
\<close>

theorem api_calculate_not_finite:
  "float_of_str (asc ''nan'') = Some NaN \<and>
   float_of_str (asc ''inf'') = Some PInf \<and>
   float_of_str (asc ''-inf'') = Some NInf \<and>
   (float_of_str s = Some y \<longrightarrow> float_py (JStr s) = Inr y) \<and>
   (has_fields data num1 operator num2 \<longrightarrow>
    float_py num1 = Inr x1 \<longrightarrow> float_py num2 = Inr x2 \<longrightarrow>
      validate_numbers num1 num2 = Inr () \<and>
      api_calculate (Inr data) =
        (case calculate_and_format num1 operator num2 of
           (evs, Inr r) \<Rightarrow> (evs, r)
         | (evs, Inl e) \<Rightarrow> (evs @ [Log_error], handle_exception e)) \<and>
      (calculate num1 operator num2 = Inr NaN \<longrightarrow>
         api_calculate (Inr data) =
           ([Calculate num1 operator num2, Log_error],
            \<lparr>status = 400,
             body = [(''success'', VBool False),
                     (''error'', VStr (Text ''cannot convert float NaN to integer''))]\<rparr>)) \<and>
      (calculate num1 operator num2 = Inr PInf \<or> calculate num1 operator num2 = Inr NInf \<longrightarrow>
         api_calculate (Inr data) =
           ([Calculate num1 operator num2, Log_error],
            \<lparr>status = 500,
             body = [(''success'', VBool False),
                     (''error'', VStr (Text ''An unexpected error occurred''))]\<rparr>))) \<and>
   api_calculate (Inr (request (JStr (asc ''nan'')) (JStr (asc ''+'')) (JStr (asc ''1'')))) =
     ([Calculate (JStr (asc ''nan'')) (JStr (asc ''+'')) (JStr (asc ''1'')), Log_error],
      \<lparr>status = 400,
       body = [(''success'', VBool False),
               (''error'', VStr (Text ''cannot convert float NaN to integer''))]\<rparr>) \<and>
   api_calculate (Inr (request (JStr (asc ''inf'')) (JStr (asc ''+'')) (JStr (asc ''1'')))) =
     ([Calculate (JStr (asc ''inf'')) (JStr (asc ''+'')) (JStr (asc ''1'')), Log_error],
      \<lparr>status = 500,
       body = [(''success'', VBool False),
               (''error'', VStr (Text ''An unexpected error occurred''))]\<rparr>)"
proof -
  have nan: "float_of_str (asc ''nan'') = Some NaN" by code_simp
  have inf: "float_of_str (asc ''inf'') = Some PInf" by code_simp
  have ninf: "float_of_str (asc ''-inf'') = Some NInf" by code_simp
  have one: "float_of_str (asc ''1'') = Some (Val 1)" by code_simp
  have str: "float_py (JStr t) = Inr z" if "float_of_str t = Some z" for t z
    using that by (simp add: float_py_def)
  have plus: "calculate a (JStr (asc ''+'')) b = add a b" for a b
    by (simp add: calculate_def lookup_operation_def operations_def asc_def)
  have accept: "validate_numbers a b = Inr ()"
    if "float_py a = Inr u" and "float_py b = Inr v" for a b u v
    using that by (simp add: validate_numbers_def)
  have proceed: "api_calculate (Inr d) =
        (case calculate_and_format a p b of
           (evs, Inr r) \<Rightarrow> (evs, r)
         | (evs, Inl e) \<Rightarrow> (evs @ [Log_error], handle_exception e))"
    if "has_fields d a p b" and "float_py a = Inr u" and "float_py b = Inr v" for d a p b u v
    using accept [OF that(2,3)]
    by (simp add: api_calculate_def try_body_has_fields [OF that(1)] validate_and_calculate_def)
  have nan_result: "api_calculate (Inr d) =
        ([Calculate a p b, Log_error],
         \<lparr>status = 400,
          body = [(''success'', VBool False),
                  (''error'', VStr (Text ''cannot convert float NaN to integer''))]\<rparr>)"
    if "has_fields d a p b" and "float_py a = Inr u" and "float_py b = Inr v"
      and "calculate a p b = Inr NaN" for d a p b u v
    using api_calculate_returns [OF that(1) accept [OF that(2,3)] that(4)]
    by (simp add: format_result_not_finite handle_exception_def calculation_error_def)
  have inf_result: "api_calculate (Inr d) =
        ([Calculate a p b, Log_error],
         \<lparr>status = 500,
          body = [(''success'', VBool False),
                  (''error'', VStr (Text ''An unexpected error occurred''))]\<rparr>)"
    if "has_fields d a p b" and "float_py a = Inr u" and "float_py b = Inr v"
      and "calculate a p b = Inr PInf \<or> calculate a p b = Inr NInf" for d a p b u v
    using that(4)
  proof
    assume c: "calculate a p b = Inr PInf"
    from api_calculate_returns [OF that(1) accept [OF that(2,3)] c] show ?thesis
      by (simp add: format_result_not_finite handle_exception_def unexpected_error_def)
  next
    assume c: "calculate a p b = Inr NInf"
    from api_calculate_returns [OF that(1) accept [OF that(2,3)] c] show ?thesis
      by (simp add: format_result_not_finite handle_exception_def unexpected_error_def)
  qed
  have c1: "calculate (JStr (asc ''nan'')) (JStr (asc ''+'')) (JStr (asc ''1'')) = Inr NaN"
    by (simp add: plus add_def float_py_def nan one fadd_def)
  have c2: "calculate (JStr (asc ''inf'')) (JStr (asc ''+'')) (JStr (asc ''1'')) = Inr PInf"
    by (simp add: plus add_def float_py_def inf one fadd_def is_finite_def)
  note r1 = nan_result [OF has_fields_request str [OF nan] str [OF one] c1]
  note r2 = inf_result [OF has_fields_request str [OF inf] str [OF one] disjI1 [OF c2]]
  have general: "has_fields data num1 operator num2 \<longrightarrow>
    float_py num1 = Inr x1 \<longrightarrow> float_py num2 = Inr x2 \<longrightarrow>
      validate_numbers num1 num2 = Inr () \<and>
      api_calculate (Inr data) =
        (case calculate_and_format num1 operator num2 of
           (evs, Inr r) \<Rightarrow> (evs, r)
         | (evs, Inl e) \<Rightarrow> (evs @ [Log_error], handle_exception e)) \<and>
      (calculate num1 operator num2 = Inr NaN \<longrightarrow>
         api_calculate (Inr data) =
           ([Calculate num1 operator num2, Log_error],
            \<lparr>status = 400,
             body = [(''success'', VBool False),
                     (''error'', VStr (Text ''cannot convert float NaN to integer''))]\<rparr>)) \<and>
      (calculate num1 operator num2 = Inr PInf \<or> calculate num1 operator num2 = Inr NInf \<longrightarrow>
         api_calculate (Inr data) =
           ([Calculate num1 operator num2, Log_error],
            \<lparr>status = 500,
             body = [(''success'', VBool False),
                     (''error'', VStr (Text ''An unexpected error occurred''))]\<rparr>))"
  proof (intro impI conjI)
    assume h: "has_fields data num1 operator num2"
      and a: "float_py num1 = Inr x1" and b: "float_py num2 = Inr x2"
    show "validate_numbers num1 num2 = Inr ()"
      by (rule accept [OF a b])
    show "api_calculate (Inr data) =
        (case calculate_and_format num1 operator num2 of
           (evs, Inr r) \<Rightarrow> (evs, r)
         | (evs, Inl e) \<Rightarrow> (evs @ [Log_error], handle_exception e))"
      by (rule proceed [OF h a b])
    show "api_calculate (Inr data) =
           ([Calculate num1 operator num2, Log_error],
            \<lparr>status = 400,
             body = [(''success'', VBool False),
                     (''error'', VStr (Text ''cannot convert float NaN to integer''))]\<rparr>)"
      if "calculate num1 operator num2 = Inr NaN"
      by (rule nan_result [OF h a b that])
    show "api_calculate (Inr data) =
           ([Calculate num1 operator num2, Log_error],
            \<lparr>status = 500,
             body = [(''success'', VBool False),
                     (''error'', VStr (Text ''An unexpected error occurred''))]\<rparr>)"
      if "calculate num1 operator num2 = Inr PInf \<or> calculate num1 operator num2 = Inr NInf"
      by (rule inf_result [OF h a b that])
  qed
  have parse: "float_of_str s = Some y \<longrightarrow> float_py (JStr s) = Inr y"
    using str by blast
  show ?thesis
    by (intro conjI nan inf ninf parse general r1 r2)
qed

text \<open>C10, amended, at the request \<^verbatim>\<open>-inf * 2\<close>.\<close>

theorem api_calculate_not_finite_witness:
  "float_of_str (asc ''-inf'') = Some NInf \<and>
   float_py (JStr (asc ''-inf'')) = Inr NInf \<and>
   float_py (JInt 2) = Inr (Val 2) \<and>
   has_fields (request (JStr (asc ''-inf'')) (JStr (asc ''*'')) (JInt 2))
     (JStr (asc ''-inf'')) (JStr (asc ''*'')) (JInt 2) \<and>
   validate_numbers (JStr (asc ''-inf'')) (JInt 2) = Inr () \<and>
   calculate (JStr (asc ''-inf'')) (JStr (asc ''*'')) (JInt 2) = Inr NInf \<and>
   api_calculate (Inr (request (JStr (asc ''-inf'')) (JStr (asc ''*'')) (JInt 2))) =
     ([Calculate (JStr (asc ''-inf'')) (JStr (asc ''*'')) (JInt 2), Log_error],
      \<lparr>status = 500,
       body = [(''success'', VBool False),
               (''error'', VStr (Text ''An unexpected error occurred''))]\<rparr>)"
proof -
  have s: "float_of_str (asc ''-inf'') = Some NInf" by code_simp
  have a: "float_py (JStr (asc ''-inf'')) = Inr NInf" by code_simp
  have b: "float_py (JInt 2) = Inr (Val 2)" by code_simp
  have c: "calculate (JStr (asc ''-inf'')) (JStr (asc ''*'')) (JInt 2) = Inr NInf"
    by code_simp
  have f: "calculate_and_format (JStr (asc ''-inf'')) (JStr (asc ''*'')) (JInt 2) =
      ([Calculate (JStr (asc ''-inf'')) (JStr (asc ''*'')) (JInt 2)], Inl OverflowError)"
    by (simp add: calculate_and_format_def c format_result_not_finite)
  from api_calculate_not_finite [of "asc ''-inf''" NInf
      "request (JStr (asc ''-inf'')) (JStr (asc ''*'')) (JInt 2)"
      "JStr (asc ''-inf'')" "JStr (asc ''*'')" "JInt 2" NInf "Val 2"]
  show ?thesis
    by (simp add: s a b c f has_fields_request handle_exception_def unexpected_error_def)
qed

text \<open>
  C7.  Whatever \<^verbatim>\<open>request.get_json()\<close> does, the response of \<^verbatim>\<open>api_calculate\<close> has a
  boolean field \<^verbatim>\<open>success\<close>; it has a field \<^verbatim>\<open>result\<close>, a number, exactly when
  \<^verbatim>\<open>success\<close> is true, and a field \<^verbatim>\<open>error\<close>, a text, exactly when \<^verbatim>\<open>success\<close> is false.
\<close>

theorem api_calculate_shape:
  "\<exists>b. map_of (body (snd (api_calculate got))) ''success'' = Some (VBool b) \<and>
       (map_of (body (snd (api_calculate got))) ''result'' \<noteq> None) = b \<and>
       ((\<exists>i. map_of (body (snd (api_calculate got))) ''result'' = Some (VInt i)) \<or>
        (\<exists>x. map_of (body (snd (api_calculate got))) ''result'' = Some (VFloat x))) = b \<and>
       (map_of (body (snd (api_calculate got))) ''error'' \<noteq> None) = (\<not> b) \<and>
       (\<exists>m. map_of (body (snd (api_calculate got))) ''error'' = Some (VStr m)) = (\<not> b)"
  using api_calculate_cases [of got]
  by (elim disjE exE conjE)
    (auto simp: unexpected_error_def calculation_error_def no_data_def missing_field_def
      invalid_number_def success_def)

text \<open>C7 at the request \<^verbatim>\<open>2 + 3\<close>.\<close>

theorem api_calculate_shape_witness:
  "\<exists>b. map_of (body (snd (api_calculate (Inr (request (JInt 2) (JStr (asc ''+'')) (JInt 3))))))
         ''success'' = Some (VBool b) \<and>
       (map_of (body (snd (api_calculate (Inr (request (JInt 2) (JStr (asc ''+'')) (JInt 3))))))
         ''result'' \<noteq> None) = b"
  using api_calculate_shape [of "Inr (request (JInt 2) (JStr (asc ''+'')) (JInt 3))"]
  by blast

subsection \<open>The health check\<close>

text \<open>
  C8.  \<^verbatim>\<open>health_check\<close> reads nothing of the request: its response has status 200,
  the field \<^verbatim>\<open>status\<close> with the text \<^verbatim>\<open>healthy\<close>, and a field \<^verbatim>\<open>message\<close> that is a
  text.
\<close>

theorem health_check_healthy:
  "status health_check = 200 \<and>
   map_of (body health_check) ''status'' = Some (VStr (Text ''healthy'')) \<and>
   (\<exists>m. map_of (body health_check) ''message'' = Some (VStr m))"
  by (simp add: health_check_def)

end
